theory Spec2Isabelle
  imports Complex_Main "HOL-Library.Word"
begin

section \<open>Values and faults\<close>

text \<open>
  The scene manager of \<^verbatim>\<open>SceneManager.cpp\<close> talks to four collaborators that are not
  part of the file: the image decoder (\<^verbatim>\<open>stbi_*\<close>), OpenGL (\<^verbatim>\<open>gl*\<close>), the shader
  manager (\<^verbatim>\<open>m_pShaderManager\<close>) and the mesh provider (\<^verbatim>\<open>m_basicMeshes\<close>). Every call
  to one of them is recorded, in program order, in a call log; the scene manager's own
  fields are a record. Undefined behaviour of the C++ (a call through a null pointer, an
  array access outside the array) ends the run with a fault.

  A \<^verbatim>\<open>float\<close> is read as the real number its literal denotes; the only float
  arithmetic the file does itself is \<^verbatim>\<open>-4.0f + (i / 2.0f)\<close> for small \<^verbatim>\<open>i\<close>, which is
  exact in binary32. The matrix arithmetic belongs to glm and is a parameter.
\<close>

type_synonym float = real
type_synonym vec2 = "float \<times> float"
type_synonym vec3 = "float \<times> float \<times> float"
type_synonym vec4 = "float \<times> float \<times> float \<times> float"
type_synonym GLuint = "32 word"

datatype fault = NullPointerDereference | ArrayIndexOutOfBounds

definition and_then :: "fault + 'a \<Rightarrow> ('a \<Rightarrow> fault + 'b) \<Rightarrow> fault + 'b" where
  "and_then r f = (case r of Inl e \<Rightarrow> Inl e | Inr x \<Rightarrow> f x)"

text \<open>Statements run one after the other; the first fault ends the run.\<close>

fun sequence :: "('w \<Rightarrow> fault + 'w) list \<Rightarrow> 'w \<Rightarrow> fault + 'w" where
  "sequence [] w = Inr w"
| "sequence (f # fs) w = and_then (f w) (sequence fs)"

section \<open>The collaborators: glm, the call log, OpenGL texture names\<close>

text \<open>
  The glm functions \<^verbatim>\<open>SetTransformations\<close> calls: \<^verbatim>\<open>glm::scale\<close>, \<^verbatim>\<open>glm::rotate\<close>,
  \<^verbatim>\<open>glm::translate\<close>, \<^verbatim>\<open>glm::radians\<close> and the product of two \<^verbatim>\<open>glm::mat4\<close>. The type
  \<open>'m\<close> stands for \<^verbatim>\<open>glm::mat4\<close>.
\<close>

record 'm glm =
  glm_scale :: "vec3 \<Rightarrow> 'm"
  glm_rotate :: "float \<Rightarrow> vec3 \<Rightarrow> 'm"
  glm_translate :: "vec3 \<Rightarrow> 'm"
  glm_radians :: "float \<Rightarrow> float"
  glm_times :: "'m \<Rightarrow> 'm \<Rightarrow> 'm"

datatype 'm uniform_value =
    BoolValue bool
  | IntValue int
  | FloatValue float
  | Vec2Value vec2
  | Vec3Value vec3
  | Vec4Value vec4
  | Mat4Value 'm
  | Sampler2DValue int

datatype mesh = PlaneMesh | BoxMesh | CylinderMesh

datatype GLenum =
    GL_TEXTURE_2D | GL_TEXTURE_WRAP_S | GL_TEXTURE_WRAP_T | GL_TEXTURE_MIN_FILTER
  | GL_TEXTURE_MAG_FILTER | GL_REPEAT | GL_LINEAR | GL_RGB8 | GL_RGB | GL_RGBA8 | GL_RGBA
  | GL_UNSIGNED_BYTE

text \<open>
  One entry of the call log. \<open>GenTextures n\<close> is a call of \<^verbatim>\<open>glGenTextures(1, &x)\<close> that
  stored the name \<open>n\<close> in \<^verbatim>\<open>x\<close>; \<open>DeleteTextures n\<close> would be \<^verbatim>\<open>glDeleteTextures(1, &x)\<close>
  with \<^verbatim>\<open>x == n\<close> (the file never calls it). \<open>SetUniform name v\<close> is a call of one of the
  shader manager's typed setters; the constructor of \<open>v\<close> tells which.
\<close>

datatype 'm call =
    StbiSetFlipVerticallyOnLoad bool
  | StbiLoad string
  | StbiImageFree
  | GenTextures GLuint
  | DeleteTextures GLuint
  | BindTexture GLenum GLuint
  | TexParameteri GLenum GLenum GLenum
  | TexImage2D GLenum GLenum int int GLenum GLenum
  | GenerateMipmap GLenum
  | SetUniform string "'m uniform_value"
  | DrawMesh mesh

text \<open>
  The world outside the scene manager: the call log, and OpenGL's texture names. OpenGL
  promises that \<^verbatim>\<open>glGenTextures\<close> returns a name that was not in use; the context is
  modelled with the next unused name (\<open>gl_next_name\<close>) and the names generated and not
  deleted (\<open>gl_textures\<close>).
\<close>

record 'm world =
  calls :: "'m call list"
  gl_next_name :: GLuint
  gl_textures :: "GLuint list"

definition emit :: "'m call \<Rightarrow> 'm world \<Rightarrow> 'm world" where
  "emit c w = w\<lparr>calls := calls w @ [c]\<rparr>"

definition glGenTextures :: "'m world \<Rightarrow> GLuint \<times> 'm world" where
  "glGenTextures w =
     (let n = gl_next_name w
      in (n, emit (GenTextures n) (w\<lparr>gl_next_name := n + 1, gl_textures := gl_textures w @ [n]\<rparr>)))"

text \<open>What the image decoder returns for a file it can decode.\<close>

record image =
  width :: int
  height :: int
  colorChannels :: int

section \<open>The scene manager's state\<close>

record TEXTURE_INFO =
  ID :: GLuint
  tag :: string

record OBJECT_MATERIAL =
  diffuseColor :: vec3
  specularColor :: vec3
  shininess :: float
  tag_material :: string

datatype pointer = NULL | NonNull

record SceneManager =
  m_pShaderManager :: pointer
  m_textureIDs :: "TEXTURE_INFO list"
  m_loadedTextures :: int
  m_objectMaterials :: "OBJECT_MATERIAL list"

text \<open>
  Modelled from the spec: the length of the array \<^verbatim>\<open>m_textureIDs\<close>, which
  \<^verbatim>\<open>SceneManager.h\<close> declares and the repository's files do not include. The spec gives
  the texture list "a fixed maximum slot count (16)".
\<close>

definition MAX_TEXTURES :: nat where
  "MAX_TEXTURES = 16"

text \<open>
  The constructor. The slots of the array start with an empty tag; their \<^verbatim>\<open>ID\<close> is
  indeterminate in C++ and never read before \<^verbatim>\<open>CreateGLTexture\<close> writes it (0 here).
\<close>

definition SceneManager_new :: "pointer \<Rightarrow> SceneManager" where
  "SceneManager_new pShaderManager =
     \<lparr>m_pShaderManager = pShaderManager,
      m_textureIDs = replicate MAX_TEXTURES \<lparr>ID = 0, tag = ''''\<rparr>,
      m_loadedTextures = 0,
      m_objectMaterials = []\<rparr>"

definition world_new :: "'m world" where
  "world_new = \<lparr>calls = [], gl_next_name = 1, gl_textures = []\<rparr>"

text \<open>Reading and writing \<^verbatim>\<open>a[i]\<close> of an array of fixed length: outside it, a fault.\<close>

definition array_read :: "'a list \<Rightarrow> int \<Rightarrow> fault + 'a" where
  "array_read a i =
     (if 0 \<le> i \<and> i < int (length a) then Inr (a ! nat i) else Inl ArrayIndexOutOfBounds)"

definition array_modify :: "'a list \<Rightarrow> int \<Rightarrow> ('a \<Rightarrow> 'a) \<Rightarrow> fault + 'a list" where
  "array_modify a i f =
     (if 0 \<le> i \<and> i < int (length a) then Inr (a[nat i := f (a ! nat i)])
      else Inl ArrayIndexOutOfBounds)"

section \<open>The texture registry\<close>

text \<open>
  \<^verbatim>\<open>CreateGLTexture\<close>, lines 61 to 125. The first argument is the image decoder:
  \<open>decode filename\<close> is what \<^verbatim>\<open>stbi_load\<close> finds in the file (\<open>None\<close> for a null
  pointer). The result is the returned \<^verbatim>\<open>bool\<close> with the new state. The messages written
  to \<^verbatim>\<open>std::cout\<close> are left out.
\<close>

definition CreateGLTexture_register ::
  "GLuint \<Rightarrow> string \<Rightarrow> SceneManager \<times> 'm world \<Rightarrow> fault + (bool \<times> SceneManager \<times> 'm world)" where
  "CreateGLTexture_register textureID tg s =
     (case s of (sm, w) \<Rightarrow>
        let w1 = emit (GenerateMipmap GL_TEXTURE_2D) w;
            w2 = emit StbiImageFree w1;
            w3 = emit (BindTexture GL_TEXTURE_2D 0) w2
        in and_then (array_modify (m_textureIDs sm) (m_loadedTextures sm)
                       (\<lambda>e. e\<lparr>ID := textureID, tag := tg\<rparr>))
             (\<lambda>a. Inr (True,
                        sm\<lparr>m_textureIDs := a, m_loadedTextures := m_loadedTextures sm + 1\<rparr>,
                        w3)))"

definition CreateGLTexture ::
  "(string \<Rightarrow> image option) \<Rightarrow> string \<Rightarrow> string \<Rightarrow> SceneManager \<times> 'm world
     \<Rightarrow> fault + (bool \<times> SceneManager \<times> 'm world)" where
  "CreateGLTexture decode filename tg s =
     (case s of (sm, w) \<Rightarrow>
        let w1 = emit (StbiSetFlipVerticallyOnLoad True) w;
            w2 = emit (StbiLoad filename) w1
        in (case decode filename of
             None \<Rightarrow> Inr (False, sm, w2)
           | Some img \<Rightarrow>
               (case glGenTextures w2 of (textureID, w3) \<Rightarrow>
                  let w4 = emit (BindTexture GL_TEXTURE_2D textureID) w3;
                      w5 = emit (TexParameteri GL_TEXTURE_2D GL_TEXTURE_WRAP_S GL_REPEAT) w4;
                      w6 = emit (TexParameteri GL_TEXTURE_2D GL_TEXTURE_WRAP_T GL_REPEAT) w5;
                      w7 = emit (TexParameteri GL_TEXTURE_2D GL_TEXTURE_MIN_FILTER GL_LINEAR) w6;
                      w8 = emit (TexParameteri GL_TEXTURE_2D GL_TEXTURE_MAG_FILTER GL_LINEAR) w7
                  in if colorChannels img = 3 then
                       CreateGLTexture_register textureID tg
                         (sm, emit (TexImage2D GL_TEXTURE_2D GL_RGB8 (width img) (height img)
                                      GL_RGB GL_UNSIGNED_BYTE) w8)
                     else if colorChannels img = 4 then
                       CreateGLTexture_register textureID tg
                         (sm, emit (TexImage2D GL_TEXTURE_2D GL_RGBA8 (width img) (height img)
                                      GL_RGBA GL_UNSIGNED_BYTE) w8)
                     else Inr (False, sm, w8))))"

text \<open>
  \<^verbatim>\<open>DestroyGLTextures\<close>, lines 149 to 155: the loop over the registered slots, each turn
  one call of \<^verbatim>\<open>glGenTextures(1, &m_textureIDs[i].ID)\<close>, which stores the generated name
  in the slot.
\<close>

function DestroyGLTextures_for ::
  "int \<Rightarrow> SceneManager \<times> 'm world \<Rightarrow> fault + (SceneManager \<times> 'm world)" where
  "DestroyGLTextures_for i (sm, w) =
     (if i < m_loadedTextures sm then
        (case glGenTextures w of (n, w') \<Rightarrow>
           (case array_modify (m_textureIDs sm) i (\<lambda>e. e\<lparr>ID := n\<rparr>) of
              Inl f \<Rightarrow> Inl f
            | Inr a \<Rightarrow> DestroyGLTextures_for (i + 1) (sm\<lparr>m_textureIDs := a\<rparr>, w')))
      else Inr (sm, w))"
  by pat_completeness auto
termination
  by (relation "measure (\<lambda>(i, sm, w). nat (m_loadedTextures sm - i))") auto

definition DestroyGLTextures :: "SceneManager \<times> 'm world \<Rightarrow> fault + (SceneManager \<times> 'm world)" where
  "DestroyGLTextures s = DestroyGLTextures_for 0 s"

text \<open>
  \<^verbatim>\<open>FindTextureID\<close>, lines 163 to 181. The loop's variables are \<^verbatim>\<open>textureID\<close>, \<^verbatim>\<open>index\<close>
  and \<^verbatim>\<open>bFound\<close>. The slot's \<^verbatim>\<open>ID\<close> is unsigned (\<^verbatim>\<open>glGenTextures\<close> writes to it) and is
  assigned to an \<^verbatim>\<open>int\<close>: \<open>sint\<close> is that conversion.
\<close>

function FindTextureID_while :: "SceneManager \<Rightarrow> string \<Rightarrow> int \<times> int \<times> bool \<Rightarrow> fault + int" where
  "FindTextureID_while sm tg (textureID, index, bFound) =
     (if index < m_loadedTextures sm \<and> bFound = False then
        (case array_read (m_textureIDs sm) index of
           Inl f \<Rightarrow> Inl f
         | Inr e \<Rightarrow>
             if tag e = tg then FindTextureID_while sm tg (sint (ID e), index, True)
             else FindTextureID_while sm tg (textureID, index + 1, bFound))
      else Inr textureID)"
  by pat_completeness auto
termination
  by (relation "measure (\<lambda>(sm, tg, t, i, b). if b then 0 else 1 + nat (m_loadedTextures sm - i))")
    auto

definition FindTextureID :: "SceneManager \<Rightarrow> string \<Rightarrow> fault + int" where
  "FindTextureID sm tg = FindTextureID_while sm tg (- 1, 0, False)"

text \<open>\<^verbatim>\<open>FindTextureSlot\<close>, lines 189 to 207.\<close>

function FindTextureSlot_while :: "SceneManager \<Rightarrow> string \<Rightarrow> int \<times> int \<times> bool \<Rightarrow> fault + int" where
  "FindTextureSlot_while sm tg (textureSlot, index, bFound) =
     (if index < m_loadedTextures sm \<and> bFound = False then
        (case array_read (m_textureIDs sm) index of
           Inl f \<Rightarrow> Inl f
         | Inr e \<Rightarrow>
             if tag e = tg then FindTextureSlot_while sm tg (index, index, True)
             else FindTextureSlot_while sm tg (textureSlot, index + 1, bFound))
      else Inr textureSlot)"
  by pat_completeness auto
termination
  by (relation "measure (\<lambda>(sm, tg, t, i, b). if b then 0 else 1 + nat (m_loadedTextures sm - i))")
    auto

definition FindTextureSlot :: "SceneManager \<Rightarrow> string \<Rightarrow> fault + int" where
  "FindTextureSlot sm tg = FindTextureSlot_while sm tg (- 1, 0, False)"

section \<open>The material table\<close>

text \<open>
  \<^verbatim>\<open>FindMaterial\<close>, lines 215 to 240. The reference parameter \<^verbatim>\<open>material\<close> is an argument
  and a result. The loop's variables are \<^verbatim>\<open>index\<close>, \<^verbatim>\<open>bFound\<close> and \<^verbatim>\<open>material\<close>; the
  vector is read at \<^verbatim>\<open>index\<close> only below its size. After the loop the function returns
  \<^verbatim>\<open>true\<close>, whatever \<^verbatim>\<open>bFound\<close> is.
\<close>

function FindMaterial_while ::
  "SceneManager \<Rightarrow> string \<Rightarrow> nat \<times> bool \<times> OBJECT_MATERIAL \<Rightarrow> nat \<times> bool \<times> OBJECT_MATERIAL" where
  "FindMaterial_while sm tg (index, bFound, material) =
     (if index < length (m_objectMaterials sm) \<and> bFound = False then
        if tag_material (m_objectMaterials sm ! index) = tg then
          FindMaterial_while sm tg
            (index, True,
             material\<lparr>diffuseColor := diffuseColor (m_objectMaterials sm ! index),
                      specularColor := specularColor (m_objectMaterials sm ! index),
                      shininess := shininess (m_objectMaterials sm ! index)\<rparr>)
        else FindMaterial_while sm tg (index + 1, bFound, material)
      else (index, bFound, material))"
  by pat_completeness auto
termination
  by (relation "measure (\<lambda>(sm, tg, i, b, m). if b then 0 else 1 + (length (m_objectMaterials sm) - i))")
    auto

definition FindMaterial :: "SceneManager \<Rightarrow> string \<Rightarrow> OBJECT_MATERIAL \<Rightarrow> bool \<times> OBJECT_MATERIAL" where
  "FindMaterial sm tg material =
     (if length (m_objectMaterials sm) = 0 then (False, material)
      else (case FindMaterial_while sm tg (0, False, material) of
              (index, bFound, material') \<Rightarrow> (True, material')))"

text \<open>\<^verbatim>\<open>DefineObjectMaterials\<close>, lines 504 to 547: five \<^verbatim>\<open>push_back\<close>s.\<close>

definition DefineObjectMaterials :: "SceneManager \<Rightarrow> SceneManager" where
  "DefineObjectMaterials sm =
     (let woodMat = \<lparr>diffuseColor = (1.0, 1.0, 1.0), specularColor = (0.3, 0.3, 0.3),
                      shininess = 32.0, tag_material = ''woodMat''\<rparr>;
          blackWoodMat = \<lparr>diffuseColor = (1.0, 1.0, 1.0), specularColor = (0.2, 0.2, 0.2),
                           shininess = 16.0, tag_material = ''blackWoodMat''\<rparr>;
          blackMetalMat = \<lparr>diffuseColor = (1.0, 1.0, 1.0), specularColor = (0.5, 0.5, 0.5),
                            shininess = 64.0, tag_material = ''blackMetalMat''\<rparr>;
          monitorScreenMat = \<lparr>diffuseColor = (1.0, 1.0, 1.0), specularColor = (1.0, 1.0, 1.0),
                               shininess = 64.0, tag_material = ''monitorScreenMat''\<rparr>;
          whiteMat = \<lparr>diffuseColor = (1.0, 1.0, 1.0), specularColor = (0.5, 0.5, 0.5),
                       shininess = 1.0, tag_material = ''whiteMat''\<rparr>
      in sm\<lparr>m_objectMaterials :=
              m_objectMaterials sm @ [woodMat, blackWoodMat, blackMetalMat, monitorScreenMat, whiteMat]\<rparr>)"

section \<open>The shader state setters\<close>

definition g_ModelName :: string where "g_ModelName = ''model''"
definition g_ColorValueName :: string where "g_ColorValueName = ''objectColor''"
definition g_TextureValueName :: string where "g_TextureValueName = ''objectTexture''"
definition g_UseTextureName :: string where "g_UseTextureName = ''bUseTexture''"
definition g_UseLightingName :: string where "g_UseLightingName = ''bUseLighting''"

text \<open>
  A call \<^verbatim>\<open>m_pShaderManager->set...Value(name, v)\<close>: through a null pointer it is a fault,
  otherwise the call is logged.
\<close>

definition shader_set :: "SceneManager \<Rightarrow> string \<Rightarrow> 'm uniform_value \<Rightarrow> 'm world \<Rightarrow> fault + 'm world" where
  "shader_set sm name v w =
     (case m_pShaderManager sm of
        NULL \<Rightarrow> Inl NullPointerDereference
      | NonNull \<Rightarrow> Inr (emit (SetUniform name v) w))"

text \<open>\<^verbatim>\<open>SetTransformations\<close>, lines 248 to 278.\<close>

definition SetTransformations ::
  "'m glm \<Rightarrow> SceneManager \<Rightarrow> vec3 \<Rightarrow> float \<Rightarrow> float \<Rightarrow> float \<Rightarrow> vec3 \<Rightarrow> 'm world \<Rightarrow> fault + 'm world" where
  "SetTransformations g sm scaleXYZ XrotationDegrees YrotationDegrees ZrotationDegrees positionXYZ w =
     (let scale = glm_scale g scaleXYZ;
          rotationX = glm_rotate g (glm_radians g XrotationDegrees) (1.0, 0.0, 0.0);
          rotationY = glm_rotate g (glm_radians g YrotationDegrees) (0.0, 1.0, 0.0);
          rotationZ = glm_rotate g (glm_radians g ZrotationDegrees) (0.0, 0.0, 1.0);
          translation = glm_translate g positionXYZ;
          modelView =
            glm_times g (glm_times g (glm_times g (glm_times g translation rotationZ) rotationY)
              rotationX) scale
      in if NULL \<noteq> m_pShaderManager sm then shader_set sm g_ModelName (Mat4Value modelView) w
         else Inr w)"

text \<open>\<^verbatim>\<open>SetShaderColor\<close>, lines 286 to 305; \<^verbatim>\<open>setIntValue(name, false)\<close> passes 0.\<close>

definition SetShaderColor ::
  "SceneManager \<Rightarrow> float \<Rightarrow> float \<Rightarrow> float \<Rightarrow> float \<Rightarrow> 'm world \<Rightarrow> fault + 'm world" where
  "SetShaderColor sm redColorValue greenColorValue blueColorValue alphaValue w =
     (let currentColor = (redColorValue, greenColorValue, blueColorValue, alphaValue)
      in if NULL \<noteq> m_pShaderManager sm then
           sequence [shader_set sm g_UseTextureName (IntValue 0),
                     shader_set sm g_ColorValueName (Vec4Value currentColor)] w
         else Inr w)"

text \<open>\<^verbatim>\<open>SetShaderTexture\<close>, lines 313 to 324; \<^verbatim>\<open>setIntValue(name, true)\<close> passes 1.\<close>

definition SetShaderTexture :: "SceneManager \<Rightarrow> string \<Rightarrow> 'm world \<Rightarrow> fault + 'm world" where
  "SetShaderTexture sm textureTag w =
     (if NULL \<noteq> m_pShaderManager sm then
        and_then (shader_set sm g_UseTextureName (IntValue 1) w)
          (\<lambda>w1. and_then (FindTextureSlot sm textureTag)
             (\<lambda>textureID. shader_set sm g_TextureValueName (Sampler2DValue textureID) w1))
      else Inr w)"

text \<open>\<^verbatim>\<open>SetTextureUVScale\<close>, lines 332 to 338.\<close>

definition SetTextureUVScale :: "SceneManager \<Rightarrow> float \<Rightarrow> float \<Rightarrow> 'm world \<Rightarrow> fault + 'm world" where
  "SetTextureUVScale sm u v w =
     (if NULL \<noteq> m_pShaderManager sm then shader_set sm ''UVscale'' (Vec2Value (u, v)) w
      else Inr w)"

text \<open>
  \<^verbatim>\<open>SetShaderMaterial\<close>, lines 346 to 362. The local \<^verbatim>\<open>OBJECT_MATERIAL material\<close> is
  declared without an initialiser; the argument \<open>material\<close> is whatever it holds before
  \<^verbatim>\<open>FindMaterial\<close> is called.
\<close>

definition SetShaderMaterial ::
  "SceneManager \<Rightarrow> string \<Rightarrow> OBJECT_MATERIAL \<Rightarrow> 'm world \<Rightarrow> fault + 'm world" where
  "SetShaderMaterial sm materialTag material w =
     (if length (m_objectMaterials sm) > 0 then
        (case FindMaterial sm materialTag material of
           (bReturn, material') \<Rightarrow>
             if bReturn = True then
               sequence
                 [shader_set sm ''material.diffuseColor'' (Vec3Value (diffuseColor material')),
                  shader_set sm ''material.specularColor'' (Vec3Value (specularColor material')),
                  shader_set sm ''material.shininess'' (FloatValue (shininess material'))] w
             else Inr w)
      else Inr w)"

section \<open>The light rig\<close>

text \<open>\<^verbatim>\<open>std::to_string\<close> of an \<^verbatim>\<open>int\<close>: its decimal digits, after a minus sign if negative.\<close>

definition digit :: "nat \<Rightarrow> char" where
  "digit n = ''0123456789'' ! n"

function to_string_nat :: "nat \<Rightarrow> string" where
  "to_string_nat n = (if n < 10 then [digit n] else to_string_nat (n div 10) @ [digit (n mod 10)])"
  by pat_completeness auto
termination
  by (relation "measure id") auto

definition to_string :: "int \<Rightarrow> string" where
  "to_string i = (if i < 0 then ''-'' @ to_string_nat (nat (- i)) else to_string_nat (nat i))"

text \<open>\<^verbatim>\<open>SetupSceneLights\<close>, lines 469 to 502; the loop of lines 497 to 501 first.\<close>

function SetupSceneLights_for :: "SceneManager \<Rightarrow> int \<Rightarrow> 'm world \<Rightarrow> fault + 'm world" where
  "SetupSceneLights_for sm i w =
     (if i < 5 then
        (let uniformName = ''pointLights['' @ to_string i @ ''].bActive''
         in case shader_set sm uniformName (BoolValue False) w of
              Inl f \<Rightarrow> Inl f
            | Inr w' \<Rightarrow> SetupSceneLights_for sm (i + 1) w')
      else Inr w)"
  by pat_completeness auto
termination
  by (relation "measure (\<lambda>(sm, i, w). nat (5 - i))") auto

definition SetupSceneLights :: "SceneManager \<Rightarrow> 'm world \<Rightarrow> fault + 'm world" where
  "SetupSceneLights sm w =
     sequence
       [shader_set sm g_UseLightingName (BoolValue True),
        shader_set sm ''directionalLight.direction'' (Vec3Value (- 0.2, - 1.0, - 0.3)),
        shader_set sm ''directionalLight.ambient'' (Vec3Value (0.1, 0.1, 0.1)),
        shader_set sm ''directionalLight.diffuse'' (Vec3Value (0.6, 0.6, 0.6)),
        shader_set sm ''directionalLight.specular'' (Vec3Value (0.8, 0.8, 0.8)),
        shader_set sm ''directionalLight.bActive'' (BoolValue True),
        shader_set sm ''pointLights[0].position'' (Vec3Value (0.0, 12.0, 0.0)),
        shader_set sm ''pointLights[0].ambient'' (Vec3Value (0.05, 0.05, 0.05)),
        shader_set sm ''pointLights[0].diffuse'' (Vec3Value (0.6, 0.6, 0.6)),
        shader_set sm ''pointLights[0].specular'' (Vec3Value (0.8, 0.8, 0.8)),
        shader_set sm ''pointLights[0].bActive'' (BoolValue True),
        SetupSceneLights_for sm 1] w"

section \<open>Rendering the keyboard\<close>

definition DrawBoxMesh :: "'m world \<Rightarrow> fault + 'm world" where
  "DrawBoxMesh w = Inr (emit (DrawMesh BoxMesh) w)"

text \<open>
  \<^verbatim>\<open>RenderKeyboard\<close>, lines 720 to 749: the inner loop over \<^verbatim>\<open>i\<close>, the outer loop over
  \<^verbatim>\<open>j\<close>, then the function. \<open>rot\<close> holds the three locals \<^verbatim>\<open>XrotationDegrees\<close>,
  \<^verbatim>\<open>YrotationDegrees\<close>, \<^verbatim>\<open>ZrotationDegrees\<close>; \<open>material\<close> is the uninitialised local of
  \<^verbatim>\<open>SetShaderMaterial\<close>.
\<close>

function RenderKeyboard_for_i ::
  "'m glm \<Rightarrow> SceneManager \<Rightarrow> OBJECT_MATERIAL \<Rightarrow> float \<times> float \<times> float \<Rightarrow> int \<Rightarrow> int \<Rightarrow> 'm world
     \<Rightarrow> fault + 'm world" where
  "RenderKeyboard_for_i g sm material rot j i w =
     (if i < 17 then
        (case rot of (XrotationDegrees, YrotationDegrees, ZrotationDegrees) \<Rightarrow>
           let scaleXYZ = (0.35, 0.35, 0.35);
               positionXYZ = (- 4.0 + (real_of_int i / 2.0), 10.5, - 1.0 + (real_of_int j / 2.0))
           in (case sequence
                      [SetTransformations g sm scaleXYZ XrotationDegrees YrotationDegrees
                         ZrotationDegrees positionXYZ,
                       SetShaderMaterial sm ''whiteMat'' material,
                       SetShaderTexture sm ''white'',
                       SetTextureUVScale sm 1.0 1.0,
                       DrawBoxMesh] w of
                 Inl f \<Rightarrow> Inl f
               | Inr w' \<Rightarrow> RenderKeyboard_for_i g sm material rot j (i + 1) w'))
      else Inr w)"
  by pat_completeness auto
termination
  by (relation "measure (\<lambda>(g, sm, material, rot, j, i, w). nat (17 - i))") auto

function RenderKeyboard_for_j ::
  "'m glm \<Rightarrow> SceneManager \<Rightarrow> OBJECT_MATERIAL \<Rightarrow> float \<times> float \<times> float \<Rightarrow> int \<Rightarrow> 'm world
     \<Rightarrow> fault + 'm world" where
  "RenderKeyboard_for_j g sm material rot j w =
     (if j < 6 then
        (case RenderKeyboard_for_i g sm material rot j 0 w of
           Inl f \<Rightarrow> Inl f
         | Inr w' \<Rightarrow> RenderKeyboard_for_j g sm material rot (j + 1) w')
      else Inr w)"
  by pat_completeness auto
termination
  by (relation "measure (\<lambda>(g, sm, material, rot, j, w). nat (6 - j))") auto

definition RenderKeyboard :: "'m glm \<Rightarrow> SceneManager \<Rightarrow> OBJECT_MATERIAL \<Rightarrow> 'm world \<Rightarrow> fault + 'm world" where
  "RenderKeyboard g sm material w =
     (let XrotationDegrees = 0.0; YrotationDegrees = 0.0; ZrotationDegrees = 0.0
      in sequence
           [SetTransformations g sm (10.0, 0.25, 4.0) XrotationDegrees YrotationDegrees
              ZrotationDegrees (0.0, 10.5, 0.0),
            SetShaderMaterial sm ''blackMetalMat'' material,
            SetShaderTexture sm ''black_metal'',
            SetTextureUVScale sm 1.0 1.0,
            DrawBoxMesh,
            RenderKeyboard_for_j g sm material (XrotationDegrees, YrotationDegrees, ZrotationDegrees) 0] w)"

text \<open>The loops are unfolded one turn at a time, where a proof asks for it.\<close>

declare DestroyGLTextures_for.simps [simp del]
declare FindTextureID_while.simps [simp del]
declare FindTextureSlot_while.simps [simp del]
declare FindMaterial_while.simps [simp del]
declare to_string_nat.simps [simp del]
declare SetupSceneLights_for.simps [simp del]
declare RenderKeyboard_for_i.simps [simp del]
declare RenderKeyboard_for_j.simps [simp del]

section \<open>Reference definitions and sample inputs\<close>

text \<open>
  The model matrix in the spec's words: \<open>M = T \<cdot> Rz \<cdot> Ry \<cdot> Rx \<cdot> S\<close>, each rotation built
  from the angle in degrees, converted to radians, about its fixed axis.
\<close>

definition Compose :: "'m glm \<Rightarrow> vec3 \<Rightarrow> float \<Rightarrow> float \<Rightarrow> float \<Rightarrow> vec3 \<Rightarrow> 'm" where
  "Compose g scale rotX rotY rotZ translate =
     (let T = glm_translate g translate;
          Rz = glm_rotate g (glm_radians g rotZ) (0, 0, 1);
          Ry = glm_rotate g (glm_radians g rotY) (0, 1, 0);
          Rx = glm_rotate g (glm_radians g rotX) (1, 0, 0);
          S = glm_scale g scale
      in glm_times g (glm_times g (glm_times g (glm_times g T Rz) Ry) Rx) S)"

text \<open>
  One instance of the glm parameter, for concrete runs: a matrix is the expression that
  built it, so two matrices are equal only when they were built the same way.
\<close>

datatype mat4_expr = Scale vec3 | Rotate float vec3 | Translate vec3 | Times mat4_expr mat4_expr

definition glm_symbolic :: "mat4_expr glm" where
  "glm_symbolic =
     \<lparr>glm_scale = Scale, glm_rotate = Rotate, glm_translate = Translate,
      glm_radians = (\<lambda>degrees. degrees * (pi / 180)), glm_times = Times\<rparr>"

text \<open>The uploads of the light rig, in order.\<close>

definition SetupSceneLights_uploads :: "'m call list" where
  "SetupSceneLights_uploads =
     [SetUniform ''bUseLighting'' (BoolValue True),
      SetUniform ''directionalLight.direction'' (Vec3Value (- 0.2, - 1.0, - 0.3)),
      SetUniform ''directionalLight.ambient'' (Vec3Value (0.1, 0.1, 0.1)),
      SetUniform ''directionalLight.diffuse'' (Vec3Value (0.6, 0.6, 0.6)),
      SetUniform ''directionalLight.specular'' (Vec3Value (0.8, 0.8, 0.8)),
      SetUniform ''directionalLight.bActive'' (BoolValue True),
      SetUniform ''pointLights[0].position'' (Vec3Value (0.0, 12.0, 0.0)),
      SetUniform ''pointLights[0].ambient'' (Vec3Value (0.05, 0.05, 0.05)),
      SetUniform ''pointLights[0].diffuse'' (Vec3Value (0.6, 0.6, 0.6)),
      SetUniform ''pointLights[0].specular'' (Vec3Value (0.8, 0.8, 0.8)),
      SetUniform ''pointLights[0].bActive'' (BoolValue True),
      SetUniform ''pointLights[1].bActive'' (BoolValue False),
      SetUniform ''pointLights[2].bActive'' (BoolValue False),
      SetUniform ''pointLights[3].bActive'' (BoolValue False),
      SetUniform ''pointLights[4].bActive'' (BoolValue False)]"

text \<open>The boolean uniforms among the calls of a log, in order, each with its name.\<close>

fun bool_uploads :: "'m call list \<Rightarrow> (string \<times> bool) list" where
  "bool_uploads [] = []"
| "bool_uploads (SetUniform name (BoolValue b) # cs) = (name, b) # bool_uploads cs"
| "bool_uploads (c # cs) = bool_uploads cs"

text \<open>
  Sample inputs. \<open>stale_material\<close> is some content of the uninitialised local of
  \<^verbatim>\<open>SetShaderMaterial\<close>; \<open>wood_uploaded\<close> is the world after the material
  \<^verbatim>\<open>"woodMat"\<close> has been uploaded.
\<close>

definition stale_material :: OBJECT_MATERIAL where
  "stale_material =
     \<lparr>diffuseColor = (7, 7, 7), specularColor = (8, 8, 8), shininess = 9, tag_material = ''''\<rparr>"

definition wood_uploaded :: "mat4_expr world" where
  "wood_uploaded =
     \<lparr>calls = [SetUniform ''material.diffuseColor'' (Vec3Value (1, 1, 1)),
               SetUniform ''material.specularColor'' (Vec3Value (0.3, 0.3, 0.3)),
               SetUniform ''material.shininess'' (FloatValue 32)],
      gl_next_name = 1, gl_textures = []\<rparr>"

text \<open>
  A caller that loads one texture after the other and ignores the returned \<^verbatim>\<open>bool\<close>, as
  \<^verbatim>\<open>PrepareScene\<close> does in lines 398 to 402.
\<close>

fun load_textures ::
  "(string \<Rightarrow> image option) \<Rightarrow> (string \<times> string) list \<Rightarrow> SceneManager \<times> 'm world
     \<Rightarrow> fault + (SceneManager \<times> 'm world)" where
  "load_textures decode [] s = Inr s"
| "load_textures decode ((filename, tg) # rest) s =
     (case CreateGLTexture decode filename tg s of
        Inl f \<Rightarrow> Inl f
      | Inr (ok, s') \<Rightarrow> load_textures decode rest s')"

text \<open>
  A decoder for which every file holds a 64 by 64 image with three channels.
\<close>

definition rgb_files :: "string \<Rightarrow> image option" where
  "rgb_files filename = Some \<lparr>width = 64, height = 64, colorChannels = 3\<rparr>"

text \<open>
  The registered entries are the first \<^verbatim>\<open>m_loadedTextures\<close> slots. The registry is in
  order for a world when the handle of every registered entry is a texture name in use
  in the OpenGL context and is not \<open>0xFFFFFFFF\<close> (the one name whose conversion to
  \<^verbatim>\<open>int\<close> is the sentinel \<open>-1\<close>), and the name OpenGL hands out next is not
  \<open>0xFFFFFFFF\<close> either.
\<close>

definition registered :: "SceneManager \<Rightarrow> TEXTURE_INFO list" where
  "registered sm = take (nat (m_loadedTextures sm)) (m_textureIDs sm)"

definition registry_ok :: "SceneManager \<Rightarrow> 'm world \<Rightarrow> bool" where
  "registry_ok sm w \<longleftrightarrow>
     gl_next_name w \<noteq> - 1 \<and>
     (\<forall>e \<in> set (registered sm). ID e \<noteq> - 1 \<and> ID e \<in> set (gl_textures w))"

text \<open>
  The calls of one object part drawn as a box, in order: the model matrix for the scale
  and the position (the three rotations are 0), the material found for the material tag
  (nothing when the table is empty), the texture slot found for the texture tag, the UV
  scale (1, 1), and the draw call.
\<close>

definition material_uploads :: "SceneManager \<Rightarrow> string \<Rightarrow> OBJECT_MATERIAL \<Rightarrow> 'm call list" where
  "material_uploads sm materialTag material =
     (if m_objectMaterials sm = [] then []
      else [SetUniform ''material.diffuseColor''
              (Vec3Value (diffuseColor (snd (FindMaterial sm materialTag material)))),
            SetUniform ''material.specularColor''
              (Vec3Value (specularColor (snd (FindMaterial sm materialTag material)))),
            SetUniform ''material.shininess''
              (FloatValue (shininess (snd (FindMaterial sm materialTag material))))])"

definition texture_slot :: "SceneManager \<Rightarrow> string \<Rightarrow> int" where
  "texture_slot sm textureTag = (case FindTextureSlot sm textureTag of Inr slot \<Rightarrow> slot | Inl f \<Rightarrow> - 1)"

definition box_calls ::
  "'m glm \<Rightarrow> SceneManager \<Rightarrow> OBJECT_MATERIAL \<Rightarrow> vec3 \<Rightarrow> vec3 \<Rightarrow> string \<Rightarrow> string \<Rightarrow> 'm call list" where
  "box_calls g sm material scale position materialTag textureTag =
     [SetUniform ''model'' (Mat4Value (Compose g scale 0 0 0 position))] @
     material_uploads sm materialTag material @
     [SetUniform ''bUseTexture'' (IntValue 1),
      SetUniform ''objectTexture'' (Sampler2DValue (texture_slot sm textureTag)),
      SetUniform ''UVscale'' (Vec2Value (1, 1)),
      DrawMesh BoxMesh]"

text \<open>
  The keyboard in the spec's words: the key of loop indices \<open>i\<close> and \<open>j\<close> stands at
  \<open>(-4 + i/2, 10.5, -1 + j/2)\<close>, has scale \<open>(0.35, 0.35, 0.35)\<close>, material
  \<^verbatim>\<open>"whiteMat"\<close> and texture \<^verbatim>\<open>"white"\<close>; the keys are drawn row by row, \<open>j\<close> from 0 to 5
  and in each row \<open>i\<close> from 0 to 16, after the keyboard's base.
\<close>

definition key_position :: "nat \<Rightarrow> nat \<Rightarrow> vec3" where
  "key_position i j = (- 4 + real i / 2, 10.5, - 1 + real j / 2)"

definition key_calls :: "'m glm \<Rightarrow> SceneManager \<Rightarrow> OBJECT_MATERIAL \<Rightarrow> nat \<Rightarrow> nat \<Rightarrow> 'm call list" where
  "key_calls g sm material i j =
     box_calls g sm material (0.35, 0.35, 0.35) (key_position i j) ''whiteMat'' ''white''"

definition keyboard_keys :: "(nat \<times> nat) list" where
  "keyboard_keys = concat (map (\<lambda>j. map (\<lambda>i. (i, j)) [0..<17]) [0..<6])"

definition RenderKeyboard_calls :: "'m glm \<Rightarrow> SceneManager \<Rightarrow> OBJECT_MATERIAL \<Rightarrow> 'm call list" where
  "RenderKeyboard_calls g sm material =
     box_calls g sm material (10, 0.25, 4) (0, 10.5, 0) ''blackMetalMat'' ''black_metal'' @
     concat (map (\<lambda>(i, j). key_calls g sm material i j) keyboard_keys)"

text \<open>
  Sample states: the calls of one successful load of a file of \<open>rgb_files\<close>, the
  state after \<^verbatim>\<open>"wood"\<close> has been loaded into a new scene manager, and the state after a
  second file has been loaded under the same tag.
\<close>

definition rgb_load_calls :: "string \<Rightarrow> GLuint \<Rightarrow> 'm call list" where
  "rgb_load_calls filename n =
     [StbiSetFlipVerticallyOnLoad True, StbiLoad filename, GenTextures n,
      BindTexture GL_TEXTURE_2D n,
      TexParameteri GL_TEXTURE_2D GL_TEXTURE_WRAP_S GL_REPEAT,
      TexParameteri GL_TEXTURE_2D GL_TEXTURE_WRAP_T GL_REPEAT,
      TexParameteri GL_TEXTURE_2D GL_TEXTURE_MIN_FILTER GL_LINEAR,
      TexParameteri GL_TEXTURE_2D GL_TEXTURE_MAG_FILTER GL_LINEAR,
      TexImage2D GL_TEXTURE_2D GL_RGB8 64 64 GL_RGB GL_UNSIGNED_BYTE,
      GenerateMipmap GL_TEXTURE_2D, StbiImageFree, BindTexture GL_TEXTURE_2D 0]"

definition wood_loaded :: "SceneManager \<times> mat4_expr world" where
  "wood_loaded =
     (\<lparr>m_pShaderManager = NonNull,
       m_textureIDs = \<lparr>ID = 1, tag = ''wood''\<rparr> # replicate 15 \<lparr>ID = 0, tag = ''''\<rparr>,
       m_loadedTextures = 1,
       m_objectMaterials = []\<rparr>,
      \<lparr>calls = rgb_load_calls ''textures/wood_texture.jpg'' 1,
       gl_next_name = 2, gl_textures = [1]\<rparr>)"

definition wood_loaded_twice :: "SceneManager \<times> mat4_expr world" where
  "wood_loaded_twice =
     (\<lparr>m_pShaderManager = NonNull,
       m_textureIDs = \<lparr>ID = 1, tag = ''wood''\<rparr> # \<lparr>ID = 2, tag = ''wood''\<rparr> #
                      replicate 14 \<lparr>ID = 0, tag = ''''\<rparr>,
       m_loadedTextures = 2,
       m_objectMaterials = []\<rparr>,
      \<lparr>calls = rgb_load_calls ''textures/wood_texture.jpg'' 1 @
               rgb_load_calls ''textures/black_wood_texture.jpg'' 2,
       gl_next_name = 3, gl_textures = [1, 2]\<rparr>)"

text \<open>
  A world in which the name OpenGL hands out next is \<open>0xFFFFFFFF\<close>, and the state
  after \<^verbatim>\<open>"wood"\<close> has been loaded into a new scene manager in that world.
\<close>

definition last_name_world :: "mat4_expr world" where
  "last_name_world = \<lparr>calls = [], gl_next_name = - 1, gl_textures = []\<rparr>"

definition wood_loaded_last_name :: "SceneManager \<times> mat4_expr world" where
  "wood_loaded_last_name =
     (\<lparr>m_pShaderManager = NonNull,
       m_textureIDs = \<lparr>ID = - 1, tag = ''wood''\<rparr> # replicate 15 \<lparr>ID = 0, tag = ''''\<rparr>,
       m_loadedTextures = 1,
       m_objectMaterials = []\<rparr>,
      \<lparr>calls = rgb_load_calls ''textures/wood_texture.jpg'' (- 1),
       gl_next_name = 0, gl_textures = [- 1]\<rparr>)"
section \<open>Properties of the texture registry\<close>

text \<open>
  C6. When the decoder returns an image whose channel count is neither 3 nor 4,
  \<^verbatim>\<open>CreateGLTexture\<close> returns \<^verbatim>\<open>false\<close>, and the registry is as it was: the same count of
  registered textures and the same entries.
\<close>

theorem CreateGLTexture_unsupported_channels:
  assumes "decode filename = Some img"
    and "colorChannels img \<noteq> 3"
    and "colorChannels img \<noteq> 4"
  shows "\<exists>w'. CreateGLTexture decode filename tg (sm, w) = Inr (False, sm, w')"
  using assms by (simp add: CreateGLTexture_def Let_def split: prod.splits)

theorem CreateGLTexture_unsupported_channels_witness:
  "colorChannels \<lparr>width = 2, height = 2, colorChannels = 1\<rparr> \<noteq> 3 \<and>
   colorChannels \<lparr>width = 2, height = 2, colorChannels = 1\<rparr> \<noteq> 4 \<and>
   (\<exists>w'. CreateGLTexture (\<lambda>f. Some \<lparr>width = 2, height = 2, colorChannels = 1\<rparr>)
           ''textures/gray.png'' ''gray'' (SceneManager_new NonNull, world_new :: unit world)
         = Inr (False, SceneManager_new NonNull, w'))"
  using CreateGLTexture_unsupported_channels
    [of "\<lambda>f. Some \<lparr>width = 2, height = 2, colorChannels = 1\<rparr>" "''textures/gray.png''"
        "\<lparr>width = 2, height = 2, colorChannels = 1\<rparr>" "''gray''" "SceneManager_new NonNull"
        "world_new :: unit world"]
  by simp

text \<open>
  The outcome of the registration statements of \<^verbatim>\<open>CreateGLTexture\<close>, and what a
  returned \<^verbatim>\<open>true\<close> says about the call.
\<close>

lemma CreateGLTexture_register_eq:
  "CreateGLTexture_register textureID tg (sm, w) =
     (if 0 \<le> m_loadedTextures sm \<and> m_loadedTextures sm < int (length (m_textureIDs sm)) then
        Inr (True,
             sm\<lparr>m_textureIDs := (m_textureIDs sm)[nat (m_loadedTextures sm) :=
                    (m_textureIDs sm ! nat (m_loadedTextures sm))\<lparr>ID := textureID, tag := tg\<rparr>],
                m_loadedTextures := m_loadedTextures sm + 1\<rparr>,
             w\<lparr>calls := calls w @ [GenerateMipmap GL_TEXTURE_2D, StbiImageFree,
                                     BindTexture GL_TEXTURE_2D 0]\<rparr>)
      else Inl ArrayIndexOutOfBounds)"
  by (simp add: CreateGLTexture_register_def array_modify_def and_then_def emit_def Let_def)

lemma CreateGLTexture_True:
  assumes "CreateGLTexture decode filename tg (sm, w) = Inr (True, sm', w')"
  shows "0 \<le> m_loadedTextures sm \<and> m_loadedTextures sm < int (length (m_textureIDs sm)) \<and>
         sm' = sm\<lparr>m_textureIDs := (m_textureIDs sm)[nat (m_loadedTextures sm) :=
                      (m_textureIDs sm ! nat (m_loadedTextures sm))\<lparr>ID := gl_next_name w, tag := tg\<rparr>],
                   m_loadedTextures := m_loadedTextures sm + 1\<rparr> \<and>
         gl_textures w' = gl_textures w @ [gl_next_name w] \<and>
         gl_next_name w' = gl_next_name w + 1 \<and>
         (\<exists>img. decode filename = Some img \<and> (colorChannels img = 3 \<or> colorChannels img = 4))"
  using assms
  by (auto simp: CreateGLTexture_def CreateGLTexture_register_eq glGenTextures_def emit_def Let_def
      split: option.splits if_splits)

lemma CreateGLTexture_valid:
  assumes "decode filename = Some img"
    and "colorChannels img = 3 \<or> colorChannels img = 4"
    and "0 \<le> m_loadedTextures sm"
    and "m_loadedTextures sm < int (length (m_textureIDs sm))"
  shows "\<exists>sm' w'. CreateGLTexture decode filename tg (sm, w) = Inr (True, sm', w') \<and>
           m_loadedTextures sm' = m_loadedTextures sm + 1 \<and>
           length (m_textureIDs sm') = length (m_textureIDs sm)"
  using assms
  by (auto simp: CreateGLTexture_def CreateGLTexture_register_eq glGenTextures_def Let_def)

lemma CreateGLTexture_full:
  assumes "decode filename = Some img"
    and "colorChannels img = 3 \<or> colorChannels img = 4"
    and "m_loadedTextures sm = int (length (m_textureIDs sm))"
  shows "CreateGLTexture decode filename tg (sm, w) = Inl ArrayIndexOutOfBounds"
  using assms
  by (auto simp: CreateGLTexture_def CreateGLTexture_register_eq glGenTextures_def Let_def)

lemma replicate_16: "replicate 16 x = x # replicate 15 x"
  by (simp add: numeral_eq_Suc)

lemma replicate_15: "replicate 15 x = x # replicate 14 x"
  by (simp add: numeral_eq_Suc)

lemma CreateGLTexture_wood:
  "CreateGLTexture rgb_files ''textures/wood_texture.jpg'' ''wood''
     (SceneManager_new NonNull, world_new) = Inr (True, wood_loaded)"
  by (simp add: CreateGLTexture_def CreateGLTexture_register_eq glGenTextures_def rgb_files_def
      SceneManager_new_def MAX_TEXTURES_def world_new_def emit_def Let_def wood_loaded_def
      rgb_load_calls_def replicate_16)

lemma CreateGLTexture_wood_again:
  "CreateGLTexture rgb_files ''textures/black_wood_texture.jpg'' ''wood'' wood_loaded =
     Inr (True, wood_loaded_twice)"
  by (simp add: CreateGLTexture_def CreateGLTexture_register_eq glGenTextures_def rgb_files_def
      emit_def Let_def wood_loaded_def wood_loaded_twice_def rgb_load_calls_def replicate_15)

text \<open>
  Both lookups stop at the first registered slot that has the tag.
\<close>

lemma FindTextureSlot_while_found:
  "FindTextureSlot_while sm tg (s, i, True) = Inr s"
  by (simp add: FindTextureSlot_while.simps)

lemma FindTextureID_while_found:
  "FindTextureID_while sm tg (t, i, True) = Inr t"
  by (simp add: FindTextureID_while.simps)

lemma FindTextureSlot_while_first:
  assumes "k < length (m_textureIDs sm)"
    and "int k < m_loadedTextures sm"
    and "tag (m_textureIDs sm ! k) = tg"
    and "\<forall>j. i \<le> j \<and> j < k \<longrightarrow> tag (m_textureIDs sm ! j) \<noteq> tg"
    and "i \<le> k"
  shows "FindTextureSlot_while sm tg (s, int i, False) = Inr (int k)"
  using assms(4,5)
proof (induction "k - i" arbitrary: i s)
  case 0
  then have "i = k" by simp
  then show ?case
    using assms(1,2,3)
    by (simp add: FindTextureSlot_while.simps [of sm tg s "int k" False] array_read_def
        FindTextureSlot_while_found)
next
  case (Suc d)
  then have less: "i < k" and differs: "tag (m_textureIDs sm ! i) \<noteq> tg"
    by auto
  have "FindTextureSlot_while sm tg (s, int (Suc i), False) = Inr (int k)"
    using Suc.hyps(1) [of "Suc i" s] Suc.hyps(2) Suc.prems less by auto
  then show ?case
    using less differs assms(1,2)
    by (simp add: FindTextureSlot_while.simps [of sm tg s "int i" False] array_read_def
        add.commute)
qed

lemma FindTextureID_while_first:
  assumes "k < length (m_textureIDs sm)"
    and "int k < m_loadedTextures sm"
    and "tag (m_textureIDs sm ! k) = tg"
    and "\<forall>j. i \<le> j \<and> j < k \<longrightarrow> tag (m_textureIDs sm ! j) \<noteq> tg"
    and "i \<le> k"
  shows "FindTextureID_while sm tg (t, int i, False) = Inr (sint (ID (m_textureIDs sm ! k)))"
  using assms(4,5)
proof (induction "k - i" arbitrary: i t)
  case 0
  then have "i = k" by simp
  then show ?case
    using assms(1,2,3)
    by (simp add: FindTextureID_while.simps [of sm tg t "int k" False] array_read_def
        FindTextureID_while_found)
next
  case (Suc d)
  then have less: "i < k" and differs: "tag (m_textureIDs sm ! i) \<noteq> tg"
    by auto
  have "FindTextureID_while sm tg (t, int (Suc i), False) = Inr (sint (ID (m_textureIDs sm ! k)))"
    using Suc.hyps(1) [of "Suc i" t] Suc.hyps(2) Suc.prems less by auto
  then show ?case
    using less differs assms(1,2)
    by (simp add: FindTextureID_while.simps [of sm tg t "int i" False] array_read_def
        add.commute)
qed

lemma FindTextureSlot_first:
  assumes "k < length (m_textureIDs sm)"
    and "int k < m_loadedTextures sm"
    and "tag (m_textureIDs sm ! k) = tg"
    and "\<forall>j < k. tag (m_textureIDs sm ! j) \<noteq> tg"
  shows "FindTextureSlot sm tg = Inr (int k)"
  using FindTextureSlot_while_first [of k sm tg 0 "- 1"] assms
  by (simp add: FindTextureSlot_def)

lemma FindTextureID_first:
  assumes "k < length (m_textureIDs sm)"
    and "int k < m_loadedTextures sm"
    and "tag (m_textureIDs sm ! k) = tg"
    and "\<forall>j < k. tag (m_textureIDs sm ! j) \<noteq> tg"
  shows "FindTextureID sm tg = Inr (sint (ID (m_textureIDs sm ! k)))"
  using FindTextureID_while_first [of k sm tg 0 "- 1"] assms
  by (simp add: FindTextureID_def)

lemma sint_minus_one_iff: "sint (x :: GLuint) = - 1 \<longleftrightarrow> x = - 1"
  by (metis signed_minus_1 signed_word_eqI)

text \<open>
  A new scene manager in a new world has its registry in order, and \<^verbatim>\<open>CreateGLTexture\<close>
  keeps it in order, whatever it returns, as long as OpenGL's next name stays clear of
  \<open>0xFFFFFFFF\<close>.
\<close>

lemma registry_ok_new: "registry_ok (SceneManager_new p) world_new"
  by (simp add: registry_ok_def registered_def SceneManager_new_def world_new_def)

lemma registered_after_load:
  assumes "n < length a"
  shows "take (Suc n) (a[n := x]) = take n a @ [x]"
  using assms by (simp add: take_Suc_conv_app_nth)

lemma CreateGLTexture_outcomes:
  assumes "CreateGLTexture decode filename tg (sm, w) = Inr (ok, sm', w')"
  shows "(sm' = sm \<and> ok = False \<and>
            (gl_textures w' = gl_textures w \<and> gl_next_name w' = gl_next_name w \<or>
             gl_textures w' = gl_textures w @ [gl_next_name w] \<and> gl_next_name w' = gl_next_name w + 1)) \<or>
         ok = True"
  using assms
  by (auto simp: CreateGLTexture_def CreateGLTexture_register_eq glGenTextures_def emit_def Let_def
      split: option.splits if_splits)

lemma registry_ok_CreateGLTexture:
  assumes "registry_ok sm w"
    and "CreateGLTexture decode filename tg (sm, w) = Inr (ok, sm', w')"
    and "gl_next_name w' \<noteq> - 1"
  shows "registry_ok sm' w'"
proof (cases ok)
  case False
  then show ?thesis
    using CreateGLTexture_outcomes [OF assms(2)] assms(1,3)
    by (auto simp: registry_ok_def)
next
  case True
  define n where "n = nat (m_loadedTextures sm)"
  have facts: "0 \<le> m_loadedTextures sm" "m_loadedTextures sm < int (length (m_textureIDs sm))"
    "sm' = sm\<lparr>m_textureIDs := (m_textureIDs sm)[n :=
                   (m_textureIDs sm ! n)\<lparr>ID := gl_next_name w, tag := tg\<rparr>],
              m_loadedTextures := m_loadedTextures sm + 1\<rparr>"
    "gl_textures w' = gl_textures w @ [gl_next_name w]"
    using CreateGLTexture_True [of decode filename tg sm w sm' w'] assms(2) True
    by (simp_all add: n_def)
  have n: "n < length (m_textureIDs sm)"
    using facts(1,2) by (simp add: n_def)
  have "nat (m_loadedTextures sm + 1) = Suc n"
    using facts(1) by (simp add: n_def)
  then have "registered sm' =
      registered sm @ [(m_textureIDs sm ! n)\<lparr>ID := gl_next_name w, tag := tg\<rparr>]"
    using registered_after_load [OF n] facts(3) by (simp add: registered_def n_def)
  then show ?thesis
    using assms(1,3) facts(4) by (auto simp: registry_ok_def)
qed

text \<open>
  C8. The claim is that after every successful \<^verbatim>\<open>CreateGLTexture\<close> with a tag,
  \<^verbatim>\<open>FindTextureID\<close> of that tag returns a handle that is not the sentinel \<open>-1\<close>. It
  fails when the texture's name is \<open>0xFFFFFFFF\<close>: the slot's unsigned \<^verbatim>\<open>ID\<close> is
  returned as an \<^verbatim>\<open>int\<close>, and that name converts to \<open>-1\<close>. With that name handed out by
  OpenGL, the load returns \<^verbatim>\<open>true\<close> and the lookup returns \<open>-1\<close>.
\<close>

theorem FindTextureID_sentinel_after_load:
  "CreateGLTexture rgb_files ''textures/wood_texture.jpg'' ''wood''
     (SceneManager_new NonNull, last_name_world) = Inr (True, wood_loaded_last_name) \<and>
   FindTextureID (fst wood_loaded_last_name) ''wood'' = Inr (- 1)"
  by (simp add: CreateGLTexture_def CreateGLTexture_register_eq glGenTextures_def rgb_files_def
      SceneManager_new_def MAX_TEXTURES_def last_name_world_def emit_def Let_def
      wood_loaded_last_name_def rgb_load_calls_def replicate_16
      FindTextureID_def FindTextureID_while.simps array_read_def)

text \<open>
  C8, as amended. After every successful \<^verbatim>\<open>CreateGLTexture\<close> with a tag,
  \<^verbatim>\<open>FindTextureID\<close> of that tag finds a registered entry with the tag and returns its
  handle, converted to \<^verbatim>\<open>int\<close>. The result is \<open>-1\<close> exactly when that handle is
  \<open>0xFFFFFFFF\<close>; on a registry that is in order it is not \<open>-1\<close>, and the handle is a
  texture name in use in the OpenGL context.
\<close>

theorem CreateGLTexture_then_FindTextureID_entry:
  assumes "CreateGLTexture decode filename tg (sm, w) = Inr (True, sm', w')"
  shows "\<exists>e. e \<in> set (registered sm') \<and> tag e = tg \<and>
           FindTextureID sm' tg = Inr (sint (ID e)) \<and>
           (sint (ID e) = - 1 \<longleftrightarrow> ID e = - 1) \<and>
           (registry_ok sm w \<longrightarrow> sint (ID e) \<noteq> - 1 \<and> ID e \<in> set (gl_textures w'))"
proof -
  define n where "n = nat (m_loadedTextures sm)"
  have facts: "0 \<le> m_loadedTextures sm" "m_loadedTextures sm < int (length (m_textureIDs sm))"
    "sm' = sm\<lparr>m_textureIDs := (m_textureIDs sm)[n :=
                   (m_textureIDs sm ! n)\<lparr>ID := gl_next_name w, tag := tg\<rparr>],
              m_loadedTextures := m_loadedTextures sm + 1\<rparr>"
    "gl_textures w' = gl_textures w @ [gl_next_name w]"
    using CreateGLTexture_True [OF assms] by (simp_all add: n_def)
  have n: "n < length (m_textureIDs sm)" "m_loadedTextures sm = int n"
    using facts(1,2) by (simp_all add: n_def)
  have new: "m_textureIDs sm' ! n = (m_textureIDs sm ! n)\<lparr>ID := gl_next_name w, tag := tg\<rparr>"
    and old: "\<forall>j < n. m_textureIDs sm' ! j = m_textureIDs sm ! j"
    and len: "length (m_textureIDs sm') = length (m_textureIDs sm)"
    and count: "m_loadedTextures sm' = int (Suc n)"
    using n facts(3) by simp_all
  define k where "k = (LEAST j. tag (m_textureIDs sm' ! j) = tg)"
  have tag_n: "tag (m_textureIDs sm' ! n) = tg"
    using new by simp
  have k: "tag (m_textureIDs sm' ! k) = tg" "k \<le> n" "\<forall>j < k. tag (m_textureIDs sm' ! j) \<noteq> tg"
  proof -
    show "tag (m_textureIDs sm' ! k) = tg"
      unfolding k_def using tag_n by (rule LeastI)
    show "k \<le> n"
      unfolding k_def using tag_n by (rule Least_le)
    show "\<forall>j < k. tag (m_textureIDs sm' ! j) \<noteq> tg"
      unfolding k_def using not_less_Least by blast
  qed
  let ?e = "m_textureIDs sm' ! k"
  have find: "FindTextureID sm' tg = Inr (sint (ID ?e))"
    using FindTextureID_first [of k sm' tg] k n len count by simp
  have member: "?e \<in> set (registered sm')"
    using k(2) n(1) len count
    by (auto simp: registered_def in_set_conv_nth intro!: exI [of _ k])
  have valid: "ID ?e \<noteq> - 1 \<and> ID ?e \<in> set (gl_textures w')" if ok: "registry_ok sm w"
  proof (cases "k = n")
    case True
    then show ?thesis
      using new ok facts(4) by (simp add: registry_ok_def)
  next
    case False
    then have "k < n" using k(2) by simp
    then have "?e = m_textureIDs sm ! k" "m_textureIDs sm ! k \<in> set (registered sm)"
      using old n by (auto simp: registered_def in_set_conv_nth intro!: exI [of _ k])
    then show ?thesis
      using ok facts(4) by (auto simp: registry_ok_def)
  qed
  show ?thesis
    using find member k(1) valid by (auto simp: sint_minus_one_iff)
qed

theorem CreateGLTexture_then_FindTextureID_entry_witness:
  "registry_ok (SceneManager_new NonNull) (world_new :: mat4_expr world) \<and>
   CreateGLTexture rgb_files ''textures/wood_texture.jpg'' ''wood''
     (SceneManager_new NonNull, world_new) = Inr (True, wood_loaded) \<and>
   (\<exists>e. e \<in> set (registered (fst wood_loaded)) \<and> tag e = ''wood'' \<and>
      FindTextureID (fst wood_loaded) ''wood'' = Inr (sint (ID e)) \<and>
      sint (ID e) \<noteq> - 1 \<and> ID e \<in> set (gl_textures (snd wood_loaded)))"
proof -
  have ok: "registry_ok (SceneManager_new NonNull) (world_new :: mat4_expr world)"
    by (simp add: registry_ok_def registered_def SceneManager_new_def world_new_def)
  have load: "CreateGLTexture rgb_files ''textures/wood_texture.jpg'' ''wood''
     (SceneManager_new NonNull, world_new) = Inr (True, fst wood_loaded, snd wood_loaded)"
    by (simp add: CreateGLTexture_wood)
  show ?thesis
    using ok CreateGLTexture_wood CreateGLTexture_then_FindTextureID_entry [OF load] by auto
qed

text \<open>
  C9. When a tag is already registered, its first entry in slot \<open>k\<close>, a further
  successful \<^verbatim>\<open>CreateGLTexture\<close> with the same tag is not rejected and does not replace
  that entry: the count grows by one, the new slot holds the new handle under the same
  tag, slot \<open>k\<close> is as it was, and both \<^verbatim>\<open>FindTextureID\<close> and \<^verbatim>\<open>FindTextureSlot\<close> still
  answer with the entry of slot \<open>k\<close>.
\<close>

theorem duplicate_tag_first_wins:
  assumes "k < length (m_textureIDs sm)"
    and "int k < m_loadedTextures sm"
    and "tag (m_textureIDs sm ! k) = tg"
    and "\<forall>j < k. tag (m_textureIDs sm ! j) \<noteq> tg"
    and "CreateGLTexture decode filename tg (sm, w) = Inr (True, sm', w')"
  shows "m_loadedTextures sm' = m_loadedTextures sm + 1 \<and>
         m_textureIDs sm' ! nat (m_loadedTextures sm) = \<lparr>ID = gl_next_name w, tag = tg\<rparr> \<and>
         m_textureIDs sm' ! k = m_textureIDs sm ! k \<and>
         FindTextureID sm' tg = Inr (sint (ID (m_textureIDs sm ! k))) \<and>
         FindTextureSlot sm' tg = Inr (int k)"
proof -
  define n where "n = nat (m_loadedTextures sm)"
  have facts: "0 \<le> m_loadedTextures sm" "m_loadedTextures sm < int (length (m_textureIDs sm))"
    "sm' = sm\<lparr>m_textureIDs := (m_textureIDs sm)[n :=
                   (m_textureIDs sm ! n)\<lparr>ID := gl_next_name w, tag := tg\<rparr>],
              m_loadedTextures := m_loadedTextures sm + 1\<rparr>"
    using CreateGLTexture_True [OF assms(5)] by (simp_all add: n_def)
  have kn: "k < n" "n < length (m_textureIDs sm)"
    using assms(2) facts(1,2) by (simp_all add: n_def)
  have same: "\<forall>j \<le> k. m_textureIDs sm' ! j = m_textureIDs sm ! j"
    using kn facts(3) by simp
  have k': "k < length (m_textureIDs sm')" "int k < m_loadedTextures sm'"
    "tag (m_textureIDs sm' ! k) = tg" "\<forall>j < k. tag (m_textureIDs sm' ! j) \<noteq> tg"
    using assms(1,2,3,4) same facts(3) by simp_all
  have "m_textureIDs sm' ! n = \<lparr>ID = gl_next_name w, tag = tg\<rparr>"
    using kn facts(3) by simp
  then show ?thesis
    using FindTextureID_first [OF k'] FindTextureSlot_first [OF k'] same facts(1,3)
    by (simp add: n_def)
qed

theorem duplicate_tag_first_wins_witness:
  "(0::nat) < length (m_textureIDs (fst wood_loaded)) \<and>
   int 0 < m_loadedTextures (fst wood_loaded) \<and>
   tag (m_textureIDs (fst wood_loaded) ! 0) = ''wood'' \<and>
   CreateGLTexture rgb_files ''textures/black_wood_texture.jpg'' ''wood'' wood_loaded =
     Inr (True, wood_loaded_twice) \<and>
   m_loadedTextures (fst wood_loaded_twice) = 2 \<and>
   m_textureIDs (fst wood_loaded_twice) ! 1 = \<lparr>ID = 2, tag = ''wood''\<rparr> \<and>
   m_textureIDs (fst wood_loaded_twice) ! 0 = \<lparr>ID = 1, tag = ''wood''\<rparr> \<and>
   FindTextureID (fst wood_loaded_twice) ''wood'' = Inr 1 \<and>
   FindTextureSlot (fst wood_loaded_twice) ''wood'' = Inr 0"
proof -
  have load: "CreateGLTexture rgb_files ''textures/black_wood_texture.jpg'' ''wood''
     (fst wood_loaded, snd wood_loaded) = Inr (True, fst wood_loaded_twice, snd wood_loaded_twice)"
    by (simp add: CreateGLTexture_wood_again)
  have first: "(0::nat) < length (m_textureIDs (fst wood_loaded))"
    "int 0 < m_loadedTextures (fst wood_loaded)"
    "tag (m_textureIDs (fst wood_loaded) ! 0) = ''wood''"
    "\<forall>j < (0::nat). tag (m_textureIDs (fst wood_loaded) ! j) \<noteq> ''wood''"
    by (simp_all add: wood_loaded_def)
  show ?thesis
    using duplicate_tag_first_wins [OF first load] first CreateGLTexture_wood_again
    by (simp add: wood_loaded_def wood_loaded_twice_def)
qed

text \<open>
  Loading valid images one after the other fills the registry slot by slot, as long as
  there is room.
\<close>

lemma load_textures_count:
  assumes "\<forall>(filename, tg) \<in> set xs.
             \<exists>img. decode filename = Some img \<and> (colorChannels img = 3 \<or> colorChannels img = 4)"
    and "0 \<le> m_loadedTextures sm"
    and "m_loadedTextures sm + int (length xs) \<le> int (length (m_textureIDs sm))"
  shows "\<exists>sm' w'. load_textures decode xs (sm, w) = Inr (sm', w') \<and>
           m_loadedTextures sm' = m_loadedTextures sm + int (length xs) \<and>
           length (m_textureIDs sm') = length (m_textureIDs sm)"
  using assms
proof (induction xs arbitrary: sm w)
  case Nil
  then show ?case by simp
next
  case (Cons x xs)
  obtain filename tg where x: "x = (filename, tg)" by (cases x)
  obtain img where img: "decode filename = Some img"
      "colorChannels img = 3 \<or> colorChannels img = 4"
    using Cons.prems(1) x by auto
  have room: "m_loadedTextures sm < int (length (m_textureIDs sm))"
    using Cons.prems(3) by simp
  obtain sm1 w1 where step: "CreateGLTexture decode filename tg (sm, w) = Inr (True, sm1, w1)"
      "m_loadedTextures sm1 = m_loadedTextures sm + 1"
      "length (m_textureIDs sm1) = length (m_textureIDs sm)"
    using CreateGLTexture_valid [of decode filename img sm tg w] img Cons.prems(2) room by blast
  have "\<exists>sm' w'. load_textures decode xs (sm1, w1) = Inr (sm', w') \<and>
           m_loadedTextures sm' = m_loadedTextures sm1 + int (length xs) \<and>
           length (m_textureIDs sm') = length (m_textureIDs sm1)"
    using Cons.IH [of sm1 w1] Cons.prems step(2,3) by simp
  then show ?case
    using step x by auto
qed

text \<open>
  C3. The claim is that the registry never holds more than 16 textures and that a load
  beyond the cap writes no record past the array. \<^verbatim>\<open>CreateGLTexture\<close> has no such check:
  after sixteen successful loads into a new scene manager the count is 16, and the
  seventeenth load of a valid image writes \<^verbatim>\<open>m_textureIDs[16]\<close>, outside the array.
\<close>

theorem seventeenth_texture_overruns:
  "\<exists>sm w. load_textures rgb_files (replicate 16 (''textures/wood_texture.jpg'', ''wood''))
             (SceneManager_new NonNull, world_new :: mat4_expr world) = Inr (sm, w) \<and>
          m_loadedTextures sm = 16 \<and>
          CreateGLTexture rgb_files ''textures/wood_texture.jpg'' ''wood'' (sm, w) =
            Inl ArrayIndexOutOfBounds"
proof -
  obtain sm w where run:
      "load_textures rgb_files (replicate 16 (''textures/wood_texture.jpg'', ''wood''))
         (SceneManager_new NonNull, world_new :: mat4_expr world) = Inr (sm, w)"
      "m_loadedTextures sm = m_loadedTextures (SceneManager_new NonNull) + int (length (replicate 16 (''textures/wood_texture.jpg'', ''wood'')))"
      "length (m_textureIDs sm) = length (m_textureIDs (SceneManager_new NonNull))"
    using load_textures_count
      [of "replicate 16 (''textures/wood_texture.jpg'', ''wood'')" rgb_files
          "SceneManager_new NonNull" "world_new :: mat4_expr world"]
    by (auto simp: rgb_files_def SceneManager_new_def MAX_TEXTURES_def)
  have full: "m_loadedTextures sm = int (length (m_textureIDs sm))"
    using run(2,3) by (simp add: SceneManager_new_def MAX_TEXTURES_def)
  have "CreateGLTexture rgb_files ''textures/wood_texture.jpg'' ''wood'' (sm, w) =
          Inl ArrayIndexOutOfBounds"
    using CreateGLTexture_full
      [of rgb_files "''textures/wood_texture.jpg''" "\<lparr>width = 64, height = 64, colorChannels = 3\<rparr>"
          sm "''wood''" w] full
    by (simp add: rgb_files_def)
  then show ?thesis
    using run(1,2) by (auto simp: SceneManager_new_def)
qed

text \<open>
  Each turn of the loop of \<^verbatim>\<open>DestroyGLTextures\<close> generates one more texture name, and
  nothing else happens to the OpenGL context.
\<close>

lemma DestroyGLTextures_for_generates:
  "DestroyGLTextures_for i s = Inr s' \<Longrightarrow>
   \<exists>ns. gl_textures (snd s') = gl_textures (snd s) @ ns \<and>
        calls (snd s') = calls (snd s) @ map GenTextures ns \<and>
        int (length ns) = max 0 (m_loadedTextures (fst s) - i)"
proof (induction i s arbitrary: s' rule: DestroyGLTextures_for.induct)
  case (1 i sm w)
  show ?case
  proof (cases "i < m_loadedTextures sm")
    case False
    then show ?thesis
      using "1.prems" by (auto simp: DestroyGLTextures_for.simps [of i sm w])
  next
    case True
    define n where "n = gl_next_name w"
    define w1 where "w1 = emit (GenTextures n) (w\<lparr>gl_next_name := n + 1, gl_textures := gl_textures w @ [n]\<rparr>)"
    have gen: "glGenTextures w = (n, w1)"
      by (simp add: glGenTextures_def n_def w1_def Let_def)
    obtain a where a: "array_modify (m_textureIDs sm) i (\<lambda>e. e\<lparr>ID := n\<rparr>) = Inr a"
      and rest: "DestroyGLTextures_for (i + 1) (sm\<lparr>m_textureIDs := a\<rparr>, w1) = Inr s'"
      using "1.prems" True gen
      by (auto simp: DestroyGLTextures_for.simps [of i sm w] split: sum.splits)
    obtain ns where ns: "gl_textures (snd s') = gl_textures w1 @ ns"
        "calls (snd s') = calls w1 @ map GenTextures ns"
        "int (length ns) = max 0 (m_loadedTextures sm - (i + 1))"
      using "1.IH" [OF True gen [symmetric] a rest] by auto
    have "gl_textures (snd s') = gl_textures w @ (n # ns)"
      "calls (snd s') = calls w @ map GenTextures (n # ns)"
      "int (length (n # ns)) = max 0 (m_loadedTextures sm - i)"
      using ns True by (simp_all add: w1_def emit_def)
    then show ?thesis
      by (metis fst_conv snd_conv)
  qed
qed

text \<open>
  C2. The claim is that \<^verbatim>\<open>DestroyGLTextures\<close> deletes the texture of every registered
  entry. The code calls \<^verbatim>\<open>glGenTextures\<close> where \<^verbatim>\<open>glDeleteTextures\<close> is meant: with
  \<^verbatim>\<open>"wood"\<close> loaded as texture 1, \<^verbatim>\<open>DestroyGLTextures\<close> issues one call, which generates
  the name 2 and stores it in the slot; texture 1 stays in use and its handle is lost.
\<close>

theorem DestroyGLTextures_frees_nothing:
  "CreateGLTexture rgb_files ''textures/wood_texture.jpg'' ''wood''
     (SceneManager_new NonNull, world_new) = Inr (True, wood_loaded) \<and>
   DestroyGLTextures wood_loaded =
     Inr (\<lparr>m_pShaderManager = NonNull,
           m_textureIDs = \<lparr>ID = 2, tag = ''wood''\<rparr> # replicate 15 \<lparr>ID = 0, tag = ''''\<rparr>,
           m_loadedTextures = 1,
           m_objectMaterials = []\<rparr>,
          \<lparr>calls = rgb_load_calls ''textures/wood_texture.jpg'' 1 @ [GenTextures 2],
           gl_next_name = 3, gl_textures = [1, 2]\<rparr>)"
  by (simp add: CreateGLTexture_wood wood_loaded_def DestroyGLTextures_def
      DestroyGLTextures_for.simps glGenTextures_def array_modify_def emit_def Let_def)

section \<open>Properties of the shader state setters\<close>

lemma shader_set_NonNull:
  "m_pShaderManager sm = NonNull \<Longrightarrow> shader_set sm name v w = Inr (emit (SetUniform name v) w)"
  by (simp add: shader_set_def)

lemma shader_set_NULL:
  "m_pShaderManager sm = NULL \<Longrightarrow> shader_set sm name v w = Inl NullPointerDereference"
  by (simp add: shader_set_def)

text \<open>
  C4. For every scale vector, rotation in degrees about x, y and z, and translation
  vector, \<^verbatim>\<open>SetTransformations\<close> of a scene manager that has a shader manager uploads one
  uniform, \<^verbatim>\<open>"model"\<close>, and its value is the matrix \<open>T \<cdot> Rz \<cdot> Ry \<cdot> Rx \<cdot> S\<close> of \<open>Compose\<close>,
  whatever glm computes for the five factors and for the product.
\<close>

theorem SetTransformations_uploads_model:
  assumes "m_pShaderManager sm = NonNull"
  shows "SetTransformations g sm scaleXYZ XrotationDegrees YrotationDegrees ZrotationDegrees
           positionXYZ w =
         Inr (w\<lparr>calls := calls w @
                [SetUniform ''model''
                   (Mat4Value (Compose g scaleXYZ XrotationDegrees YrotationDegrees
                                 ZrotationDegrees positionXYZ))]\<rparr>)"
  using assms
  by (simp add: SetTransformations_def Compose_def Let_def shader_set_NonNull emit_def
      g_ModelName_def)

theorem SetTransformations_uploads_model_witness:
  "m_pShaderManager (SceneManager_new NonNull) = NonNull \<and>
   SetTransformations glm_symbolic (SceneManager_new NonNull) (20, 1, 20) 90 0 0 (0, 15, - 15)
     world_new =
   Inr \<lparr>calls =
          [SetUniform ''model''
             (Mat4Value
                (Times (Times (Times (Times (Translate (0, 15, - 15)) (Rotate 0 (0, 0, 1)))
                   (Rotate 0 (0, 1, 0))) (Rotate (pi / 2) (1, 0, 0))) (Scale (20, 1, 20))))],
        gl_next_name = 1, gl_textures = []\<rparr>"
  using SetTransformations_uploads_model
    [of "SceneManager_new NonNull" glm_symbolic "(20, 1, 20)" 90 0 0 "(0, 15, - 15)" world_new]
  by (simp add: SceneManager_new_def world_new_def Compose_def glm_symbolic_def)

text \<open>
  C10. With a null shader manager, \<^verbatim>\<open>SetTransformations\<close>, \<^verbatim>\<open>SetShaderColor\<close>,
  \<^verbatim>\<open>SetShaderTexture\<close> and \<^verbatim>\<open>SetTextureUVScale\<close> return normally and leave the call log
  as it was, while \<^verbatim>\<open>SetShaderMaterial\<close> (once the material table is not empty, so
  that \<^verbatim>\<open>FindMaterial\<close> returns \<^verbatim>\<open>true\<close>) and \<^verbatim>\<open>SetupSceneLights\<close> call through the null
  pointer.
\<close>

theorem null_shader_manager_guards:
  assumes "m_pShaderManager sm = NULL"
  shows "SetTransformations g sm scaleXYZ rx ry rz positionXYZ w = Inr w \<and>
         SetShaderColor sm r gr b a w = Inr w \<and>
         SetShaderTexture sm textureTag w = Inr w \<and>
         SetTextureUVScale sm u v w = Inr w \<and>
         (m_objectMaterials sm \<noteq> [] \<longrightarrow>
            SetShaderMaterial sm materialTag material w = Inl NullPointerDereference) \<and>
         SetupSceneLights sm w = Inl NullPointerDereference"
  using assms
  by (auto simp: SetTransformations_def SetShaderColor_def SetShaderTexture_def
      SetTextureUVScale_def SetShaderMaterial_def SetupSceneLights_def FindMaterial_def
      shader_set_NULL and_then_def Let_def split: prod.splits)

theorem null_shader_manager_guards_witness:
  "m_pShaderManager (DefineObjectMaterials (SceneManager_new NULL)) = NULL \<and>
   m_objectMaterials (DefineObjectMaterials (SceneManager_new NULL)) \<noteq> [] \<and>
   SetTransformations glm_symbolic (DefineObjectMaterials (SceneManager_new NULL))
     (20, 1, 15) 0 0 0 (0, 0, 0) world_new = Inr world_new \<and>
   SetShaderColor (DefineObjectMaterials (SceneManager_new NULL)) 1 1 1 1
     (world_new :: mat4_expr world) = Inr world_new \<and>
   SetShaderTexture (DefineObjectMaterials (SceneManager_new NULL)) ''wood''
     (world_new :: mat4_expr world) = Inr world_new \<and>
   SetTextureUVScale (DefineObjectMaterials (SceneManager_new NULL)) 1 1
     (world_new :: mat4_expr world) = Inr world_new \<and>
   SetShaderMaterial (DefineObjectMaterials (SceneManager_new NULL)) ''woodMat'' stale_material
     (world_new :: mat4_expr world) = Inl NullPointerDereference \<and>
   SetupSceneLights (DefineObjectMaterials (SceneManager_new NULL))
     (world_new :: mat4_expr world) = Inl NullPointerDereference"
  using null_shader_manager_guards
    [of "DefineObjectMaterials (SceneManager_new NULL)" glm_symbolic "(20, 1, 15)" 0 0 0 "(0, 0, 0)"
        world_new 1 1 1 1 "''wood''" 1 1 "''woodMat''" stale_material]
  by (simp add: DefineObjectMaterials_def SceneManager_new_def)

text \<open>
  For a tag that no material of the table has, the loop of \<^verbatim>\<open>FindMaterial\<close> leaves
  \<^verbatim>\<open>material\<close> as it found it, and \<^verbatim>\<open>FindMaterial\<close> still returns \<^verbatim>\<open>true\<close>; so
  \<^verbatim>\<open>SetShaderMaterial\<close> uploads the three uniforms from its uninitialised local.
\<close>

lemma FindMaterial_while_absent:
  "\<forall>m \<in> set (m_objectMaterials sm). tag_material m \<noteq> tg \<Longrightarrow>
   snd (snd (FindMaterial_while sm tg st)) = snd (snd st)"
proof (induction sm tg st rule: FindMaterial_while.induct)
  case (1 sm tg index bFound material)
  show ?case
  proof (cases "index < length (m_objectMaterials sm) \<and> bFound = False")
    case True
    then have "tag_material (m_objectMaterials sm ! index) \<noteq> tg"
      using "1.prems" by simp
    then show ?thesis
      using True "1.IH"(2) "1.prems" by (simp add: FindMaterial_while.simps [of sm tg index])
  next
    case False
    then show ?thesis
      by (auto simp: FindMaterial_while.simps [of sm tg index])
  qed
qed

lemma SetShaderMaterial_absent_tag:
  assumes "m_pShaderManager sm = NonNull"
    and "m_objectMaterials sm \<noteq> []"
    and "\<forall>m \<in> set (m_objectMaterials sm). tag_material m \<noteq> materialTag"
  shows "SetShaderMaterial sm materialTag material w =
           Inr (w\<lparr>calls := calls w @
                  [SetUniform ''material.diffuseColor'' (Vec3Value (diffuseColor material)),
                   SetUniform ''material.specularColor'' (Vec3Value (specularColor material)),
                   SetUniform ''material.shininess'' (FloatValue (shininess material))]\<rparr>)"
proof -
  have "FindMaterial sm materialTag material = (True, material)"
    using assms(2) FindMaterial_while_absent [OF assms(3), of "(0, False, material)"]
    by (auto simp: FindMaterial_def split: prod.splits)
  then show ?thesis
    using assms(1,2) by (simp add: SetShaderMaterial_def shader_set_NonNull and_then_def emit_def)
qed

lemma wood_uploaded_by_SetShaderMaterial:
  "SetShaderMaterial (DefineObjectMaterials (SceneManager_new NonNull)) ''woodMat'' stale_material
     world_new = Inr wood_uploaded"
  by (simp add: SetShaderMaterial_def FindMaterial_def FindMaterial_while.simps
      DefineObjectMaterials_def SceneManager_new_def world_new_def wood_uploaded_def
      shader_set_def and_then_def emit_def)

text \<open>
  C1. The claim is that \<^verbatim>\<open>SetShaderMaterial\<close> with a tag absent from a non-empty material
  table uploads nothing. The code does upload: with the five materials of
  \<^verbatim>\<open>DefineObjectMaterials\<close> and \<^verbatim>\<open>"woodMat"\<close> uploaded before, the call with the tag
  \<^verbatim>\<open>"nonexistent"\<close> appends three uploads to the log, diffuse colour, specular colour and
  shininess, with the values its uninitialised local happens to hold.
\<close>

theorem SetShaderMaterial_nonexistent_uploads:
  "SetShaderMaterial (DefineObjectMaterials (SceneManager_new NonNull)) ''nonexistent''
     stale_material wood_uploaded =
   Inr (wood_uploaded\<lparr>calls := calls wood_uploaded @
          [SetUniform ''material.diffuseColor'' (Vec3Value (7, 7, 7)),
           SetUniform ''material.specularColor'' (Vec3Value (8, 8, 8)),
           SetUniform ''material.shininess'' (FloatValue 9)]\<rparr>)"
  using SetShaderMaterial_absent_tag
    [of "DefineObjectMaterials (SceneManager_new NonNull)" "''nonexistent''" stale_material
        wood_uploaded]
  by (simp add: DefineObjectMaterials_def SceneManager_new_def stale_material_def)

section \<open>Properties of the light rig\<close>

lemma to_string_digits:
  "to_string 1 = ''1''" "to_string 2 = ''2''" "to_string 3 = ''3''" "to_string 4 = ''4''"
  by (simp_all add: to_string_def to_string_nat.simps digit_def)

lemma SetupSceneLights_for_NonNull:
  assumes "m_pShaderManager sm = NonNull"
  shows "SetupSceneLights_for sm 1 w =
           Inr (w\<lparr>calls := calls w @
                  [SetUniform ''pointLights[1].bActive'' (BoolValue False),
                   SetUniform ''pointLights[2].bActive'' (BoolValue False),
                   SetUniform ''pointLights[3].bActive'' (BoolValue False),
                   SetUniform ''pointLights[4].bActive'' (BoolValue False)]\<rparr>)"
  using assms
  by (simp add: SetupSceneLights_for.simps shader_set_NonNull to_string_digits emit_def)

text \<open>
  C7. \<^verbatim>\<open>SetupSceneLights\<close> of a scene manager that has a shader manager issues exactly
  the uploads of \<open>SetupSceneLights_uploads\<close>, in that order. The boolean uniforms among
  them are the lighting switch, the directional light's flag, the flag
  \<^verbatim>\<open>pointLights[0].bActive\<close> as true and the flags \<^verbatim>\<open>pointLights[1].bActive\<close> to
  \<^verbatim>\<open>pointLights[4].bActive\<close> as false: one point-light slot is activated, four are
  deactivated.
\<close>

theorem SetupSceneLights_point_lights:
  assumes "m_pShaderManager sm = NonNull"
  shows "SetupSceneLights sm (w :: 'm world) =
           Inr (w\<lparr>calls := calls w @ SetupSceneLights_uploads\<rparr>) \<and>
         bool_uploads (SetupSceneLights_uploads :: 'm call list) =
           [(''bUseLighting'', True),
            (''directionalLight.bActive'', True),
            (''pointLights[0].bActive'', True),
            (''pointLights[1].bActive'', False),
            (''pointLights[2].bActive'', False),
            (''pointLights[3].bActive'', False),
            (''pointLights[4].bActive'', False)]"
  using assms
  by (simp add: SetupSceneLights_def SetupSceneLights_uploads_def SetupSceneLights_for_NonNull
      shader_set_NonNull and_then_def emit_def g_UseLightingName_def)

theorem SetupSceneLights_point_lights_witness:
  "m_pShaderManager (SceneManager_new NonNull) = NonNull \<and>
   SetupSceneLights (SceneManager_new NonNull) (world_new :: mat4_expr world) =
     Inr \<lparr>calls = SetupSceneLights_uploads, gl_next_name = 1, gl_textures = []\<rparr> \<and>
   bool_uploads (SetupSceneLights_uploads :: mat4_expr call list) =
     [(''bUseLighting'', True),
      (''directionalLight.bActive'', True),
      (''pointLights[0].bActive'', True),
      (''pointLights[1].bActive'', False),
      (''pointLights[2].bActive'', False),
      (''pointLights[3].bActive'', False),
      (''pointLights[4].bActive'', False)]"
  using SetupSceneLights_point_lights [of "SceneManager_new NonNull" "world_new :: mat4_expr world"]
  by (simp add: SceneManager_new_def world_new_def)

section \<open>Properties of the keyboard\<close>

text \<open>
  With a shader manager and a registry whose count does not exceed the array, every
  setter returns normally and appends its uploads to the call log.
\<close>

lemma SetTransformations_NonNull:
  assumes "m_pShaderManager sm = NonNull"
  shows "SetTransformations g sm scaleXYZ rx ry rz positionXYZ w =
         Inr (w\<lparr>calls := calls w @
                [SetUniform ''model'' (Mat4Value (Compose g scaleXYZ rx ry rz positionXYZ))]\<rparr>)"
  using assms
  by (simp add: SetTransformations_def Compose_def Let_def shader_set_def emit_def
      g_ModelName_def)

lemma SetShaderMaterial_NonNull:
  assumes "m_pShaderManager sm = NonNull"
  shows "SetShaderMaterial sm materialTag material w =
         Inr (w\<lparr>calls := calls w @ material_uploads sm materialTag material\<rparr>)"
  using assms
  by (auto simp: SetShaderMaterial_def material_uploads_def FindMaterial_def shader_set_def
      and_then_def emit_def split: prod.splits)

lemma FindTextureSlot_while_returns:
  "0 \<le> snd3 \<Longrightarrow> m_loadedTextures sm \<le> int (length (m_textureIDs sm)) \<Longrightarrow>
   \<exists>r. FindTextureSlot_while sm tg (s, snd3, b) = Inr r"
proof (induction sm tg "(s, snd3, b)" arbitrary: s snd3 b rule: FindTextureSlot_while.induct)
  case (1 sm tg textureSlot index bFound)
  show ?case
  proof (cases "index < m_loadedTextures sm \<and> bFound = False")
    case False
    then show ?thesis
      by (auto simp: FindTextureSlot_while.simps [of sm tg textureSlot index bFound])
  next
    case True
    then have rd: "array_read (m_textureIDs sm) index = Inr (m_textureIDs sm ! nat index)"
      using "1.prems" by (simp add: array_read_def)
    show ?thesis
    proof (cases "tag (m_textureIDs sm ! nat index) = tg")
      case True
      then show ?thesis
        using \<open>index < m_loadedTextures sm \<and> bFound = False\<close> rd
        by (simp add: FindTextureSlot_while.simps [of sm tg textureSlot index]
            FindTextureSlot_while_found)
    next
      case False
      have "\<exists>r. FindTextureSlot_while sm tg (textureSlot, index + 1, bFound) = Inr r"
        using "1.hyps"(2) [OF True rd False] "1.prems" by simp
      then show ?thesis
        using True rd False
        by (simp add: FindTextureSlot_while.simps [of sm tg textureSlot index])
    qed
  qed
qed

lemma FindTextureSlot_returns:
  "m_loadedTextures sm \<le> int (length (m_textureIDs sm)) \<Longrightarrow>
   FindTextureSlot sm tg = Inr (texture_slot sm tg)"
  using FindTextureSlot_while_returns [of 0 sm tg "- 1" False]
  by (auto simp: FindTextureSlot_def texture_slot_def)

lemma SetShaderTexture_NonNull:
  assumes "m_pShaderManager sm = NonNull"
    and "m_loadedTextures sm \<le> int (length (m_textureIDs sm))"
  shows "SetShaderTexture sm textureTag w =
         Inr (w\<lparr>calls := calls w @
                [SetUniform ''bUseTexture'' (IntValue 1),
                 SetUniform ''objectTexture'' (Sampler2DValue (texture_slot sm textureTag))]\<rparr>)"
  using assms
  by (simp add: SetShaderTexture_def FindTextureSlot_returns shader_set_def and_then_def emit_def
      g_UseTextureName_def g_TextureValueName_def)

lemma SetTextureUVScale_NonNull:
  assumes "m_pShaderManager sm = NonNull"
  shows "SetTextureUVScale sm u v w =
         Inr (w\<lparr>calls := calls w @ [SetUniform ''UVscale'' (Vec2Value (u, v))]\<rparr>)"
  using assms by (simp add: SetTextureUVScale_def shader_set_def emit_def)

lemma render_box:
  assumes "m_pShaderManager sm = NonNull"
    and "m_loadedTextures sm \<le> int (length (m_textureIDs sm))"
  shows "sequence
           [SetTransformations g sm scale 0 0 0 position,
            SetShaderMaterial sm materialTag material,
            SetShaderTexture sm textureTag,
            SetTextureUVScale sm 1 1,
            DrawBoxMesh] w =
         Inr (w\<lparr>calls := calls w @ box_calls g sm material scale position materialTag textureTag\<rparr>)"
  by (simp add: SetTransformations_NonNull [OF assms(1)] SetShaderMaterial_NonNull [OF assms(1)]
      SetShaderTexture_NonNull [OF assms] SetTextureUVScale_NonNull [OF assms(1)]
      DrawBoxMesh_def and_then_def emit_def box_calls_def)

text \<open>
  The inner loop from \<open>i\<close> on draws the keys \<open>i\<close> to 16 of row \<open>j\<close>; the outer loop
  from \<open>j\<close> on draws the rows \<open>j\<close> to 5.
\<close>

lemma RenderKeyboard_for_i_calls:
  assumes "m_pShaderManager sm = NonNull"
    and "m_loadedTextures sm \<le> int (length (m_textureIDs sm))"
    and "i \<le> 17"
  shows "RenderKeyboard_for_i g sm material (0, 0, 0) (int j) (int i) w =
         Inr (w\<lparr>calls := calls w @ concat (map (\<lambda>i. key_calls g sm material i j) [i..<17])\<rparr>)"
  using assms(3)
proof (induction "17 - i" arbitrary: i w)
  case 0
  then have "i = 17" by simp
  then show ?case
    by (simp add: RenderKeyboard_for_i.simps [of g sm material _ "int j" 17])
next
  case (Suc d)
  then have less: "i < 17" by simp
  define w1 where "w1 = w\<lparr>calls := calls w @ key_calls g sm material i j\<rparr>"
  have turn: "sequence
           [SetTransformations g sm (0.35, 0.35, 0.35) 0 0 0
              (- 4.0 + (real_of_int (int i) / 2.0), 10.5, - 1.0 + (real_of_int (int j) / 2.0)),
            SetShaderMaterial sm ''whiteMat'' material,
            SetShaderTexture sm ''white'',
            SetTextureUVScale sm 1.0 1.0,
            DrawBoxMesh] w = Inr w1"
    using render_box [OF assms(1,2), of g "(0.35, 0.35, 0.35)" "key_position i j" "''whiteMat''"
        material "''white''" w]
    by (simp add: key_calls_def key_position_def w1_def)
  have rest: "RenderKeyboard_for_i g sm material (0, 0, 0) (int j) (int (Suc i)) w1 =
         Inr (w1\<lparr>calls := calls w1 @ concat (map (\<lambda>i. key_calls g sm material i j) [Suc i..<17])\<rparr>)"
    using Suc.hyps(1) [of "Suc i" w1] Suc.hyps(2) less by simp
  have "RenderKeyboard_for_i g sm material (0, 0, 0) (int j) (int i) w =
          RenderKeyboard_for_i g sm material (0, 0, 0) (int j) (int i + 1) w1"
    using less turn
    by (simp add: RenderKeyboard_for_i.simps [of g sm material "(0, 0, 0)" "int j" "int i" w] Let_def)
  then show ?case
    using rest less by (simp add: w1_def upt_conv_Cons add.commute)
qed

lemma RenderKeyboard_for_j_calls:
  assumes "m_pShaderManager sm = NonNull"
    and "m_loadedTextures sm \<le> int (length (m_textureIDs sm))"
    and "j \<le> 6"
  shows "RenderKeyboard_for_j g sm material (0, 0, 0) (int j) w =
         Inr (w\<lparr>calls := calls w @
                concat (map (\<lambda>j. concat (map (\<lambda>i. key_calls g sm material i j) [0..<17])) [j..<6])\<rparr>)"
  using assms(3)
proof (induction "6 - j" arbitrary: j w)
  case 0
  then have "j = 6" by simp
  then show ?case
    by (simp add: RenderKeyboard_for_j.simps [of g sm material _ 6])
next
  case (Suc d)
  then have less: "j < 6" by simp
  define w1 where
    "w1 = w\<lparr>calls := calls w @ concat (map (\<lambda>i. key_calls g sm material i j) [0..<17])\<rparr>"
  have row: "RenderKeyboard_for_i g sm material (0, 0, 0) (int j) 0 w = Inr w1"
    using RenderKeyboard_for_i_calls [OF assms(1,2), of 0 g material j w] by (simp add: w1_def)
  have rest: "RenderKeyboard_for_j g sm material (0, 0, 0) (int (Suc j)) w1 =
         Inr (w1\<lparr>calls := calls w1 @
                concat (map (\<lambda>j. concat (map (\<lambda>i. key_calls g sm material i j) [0..<17])) [Suc j..<6])\<rparr>)"
    using Suc.hyps(1) [of "Suc j" w1] Suc.hyps(2) less by simp
  have "RenderKeyboard_for_j g sm material (0, 0, 0) (int j) w =
          RenderKeyboard_for_j g sm material (0, 0, 0) (int j + 1) w1"
    using less row
    by (simp add: RenderKeyboard_for_j.simps [of g sm material "(0, 0, 0)" "int j" w])
  then show ?case
    using rest less by (simp add: w1_def upt_conv_Cons [of j 6] add.commute)
qed

lemma concat_map_concat_rows:
  "concat (map f (concat xss)) = concat (map (\<lambda>xs. concat (map f xs)) xss)"
  by (induction xss) simp_all

lemma keyboard_keys_calls:
  "concat (map (\<lambda>(i, j). f i j) keyboard_keys) =
   concat (map (\<lambda>j. concat (map (\<lambda>i. f i j) [0..<17])) [0..<6])"
  by (simp add: keyboard_keys_def concat_map_concat_rows o_def)

lemma length_keyboard_keys: "length keyboard_keys = 102"
  by (simp add: keyboard_keys_def length_concat o_def sum_list_triv)

lemma box_calls_draws:
  "filter (\<lambda>c. c = DrawMesh BoxMesh) (box_calls g sm material scale position materialTag textureTag) =
     [DrawMesh BoxMesh]"
  by (simp add: box_calls_def material_uploads_def)

lemma concat_singletons: "length (concat (map (\<lambda>x. [c]) xs)) = length xs"
  by (induction xs) simp_all

lemma RenderKeyboard_calls_draws:
  "length (filter (\<lambda>c. c = DrawMesh BoxMesh) (RenderKeyboard_calls g sm material)) = 103"
proof -
  have "filter (\<lambda>c. c = DrawMesh BoxMesh)
          (concat (map (\<lambda>(i, j). key_calls g sm material i j) keyboard_keys)) =
        concat (map (\<lambda>x. [DrawMesh BoxMesh]) keyboard_keys)"
    by (simp add: filter_concat o_def key_calls_def box_calls_draws split_def)
  then show ?thesis
    by (simp add: RenderKeyboard_calls_def box_calls_draws concat_singletons
        length_keyboard_keys)
qed

text \<open>
  C5. \<^verbatim>\<open>RenderKeyboard\<close> appends to the call log exactly the calls of
  \<open>RenderKeyboard_calls\<close>: those of the base, then for each of the 6 times 17 = 102 keys,
  row by row, the upload of the model matrix for scale \<open>(0.35, 0.35, 0.35)\<close> and position
  \<open>(-4 + i/2, 10.5, -1 + j/2)\<close>, the uploads of the material \<^verbatim>\<open>"whiteMat"\<close>, of the slot
  of the texture \<^verbatim>\<open>"white"\<close> and of the UV scale, and then the key's draw call. With the
  draw call of the base that makes 103 draw calls, 102 of them for keys.
\<close>

theorem RenderKeyboard_draws_keys:
  assumes "m_pShaderManager sm = NonNull"
    and "m_loadedTextures sm \<le> int (length (m_textureIDs sm))"
  shows "RenderKeyboard g sm material w =
           Inr (w\<lparr>calls := calls w @ RenderKeyboard_calls g sm material\<rparr>) \<and>
         length keyboard_keys = 102 \<and>
         length (filter (\<lambda>c. c = DrawMesh BoxMesh) (RenderKeyboard_calls g sm material)) = 103"
proof -
  define w1 where
    "w1 = w\<lparr>calls := calls w @
             box_calls g sm material (10, 0.25, 4) (0, 10.5, 0) ''blackMetalMat'' ''black_metal''\<rparr>"
  have base: "sequence
           [SetTransformations g sm (10.0, 0.25, 4.0) 0 0 0 (0.0, 10.5, 0.0),
            SetShaderMaterial sm ''blackMetalMat'' material,
            SetShaderTexture sm ''black_metal'',
            SetTextureUVScale sm 1.0 1.0,
            DrawBoxMesh] w = Inr w1"
    using render_box [OF assms, of g "(10, 0.25, 4)" "(0, 10.5, 0)" "''blackMetalMat''" material
        "''black_metal''" w]
    by (simp add: w1_def)
  have keys: "RenderKeyboard_for_j g sm material (0, 0, 0) 0 w1 =
         Inr (w1\<lparr>calls := calls w1 @
                concat (map (\<lambda>(i, j). key_calls g sm material i j) keyboard_keys)\<rparr>)"
    using RenderKeyboard_for_j_calls [OF assms, of 0 g material w1]
    by (simp add: keyboard_keys_calls)
  have "RenderKeyboard g sm material w =
          and_then
            (sequence
               [SetTransformations g sm (10.0, 0.25, 4.0) 0 0 0 (0.0, 10.5, 0.0),
                SetShaderMaterial sm ''blackMetalMat'' material,
                SetShaderTexture sm ''black_metal'',
                SetTextureUVScale sm 1.0 1.0,
                DrawBoxMesh] w)
            (RenderKeyboard_for_j g sm material (0, 0, 0) 0)"
    by (simp add: RenderKeyboard_def and_then_def split: sum.splits)
  then have "RenderKeyboard g sm material w = RenderKeyboard_for_j g sm material (0, 0, 0) 0 w1"
    unfolding base by (simp add: and_then_def)
  then have "RenderKeyboard g sm material w =
           Inr (w\<lparr>calls := calls w @ RenderKeyboard_calls g sm material\<rparr>)"
    using keys by (simp add: w1_def RenderKeyboard_calls_def)
  then show ?thesis
    using length_keyboard_keys RenderKeyboard_calls_draws by blast
qed

theorem RenderKeyboard_draws_keys_witness:
  "m_pShaderManager (fst wood_loaded) = NonNull \<and>
   m_loadedTextures (fst wood_loaded) \<le> int (length (m_textureIDs (fst wood_loaded))) \<and>
   RenderKeyboard glm_symbolic (fst wood_loaded) stale_material (snd wood_loaded) =
     Inr ((snd wood_loaded)\<lparr>calls := calls (snd wood_loaded) @
            RenderKeyboard_calls glm_symbolic (fst wood_loaded) stale_material\<rparr>) \<and>
   length keyboard_keys = 102 \<and>
   length (filter (\<lambda>c. c = DrawMesh BoxMesh)
             (RenderKeyboard_calls glm_symbolic (fst wood_loaded) stale_material)) = 103"
proof -
  have hyps: "m_pShaderManager (fst wood_loaded) = NonNull"
    "m_loadedTextures (fst wood_loaded) \<le> int (length (m_textureIDs (fst wood_loaded)))"
    by (simp_all add: wood_loaded_def)
  show ?thesis
    using hyps RenderKeyboard_draws_keys [OF hyps, of glm_symbolic stale_material "snd wood_loaded"]
    by simp
qed

text \<open>
  The calls of one key, third row and fourth column, once the materials are defined
  (no texture is registered under \<^verbatim>\<open>"white"\<close> in this state, so the slot is \<open>-1\<close>).
\<close>

lemma key_calls_sample:
  "key_calls glm_symbolic (DefineObjectMaterials (fst wood_loaded)) stale_material 3 2 =
     [SetUniform ''model''
        (Mat4Value
           (Times (Times (Times (Times (Translate (- 2.5, 10.5, 0)) (Rotate 0 (0, 0, 1)))
              (Rotate 0 (0, 1, 0))) (Rotate 0 (1, 0, 0))) (Scale (0.35, 0.35, 0.35)))),
      SetUniform ''material.diffuseColor'' (Vec3Value (1, 1, 1)),
      SetUniform ''material.specularColor'' (Vec3Value (0.5, 0.5, 0.5)),
      SetUniform ''material.shininess'' (FloatValue 1),
      SetUniform ''bUseTexture'' (IntValue 1),
      SetUniform ''objectTexture'' (Sampler2DValue (- 1)),
      SetUniform ''UVscale'' (Vec2Value (1, 1)),
      DrawMesh BoxMesh]"
  by (simp add: key_calls_def box_calls_def key_position_def Compose_def glm_symbolic_def
      material_uploads_def texture_slot_def DefineObjectMaterials_def wood_loaded_def
      FindMaterial_def FindMaterial_while.simps FindTextureSlot_def FindTextureSlot_while.simps
      array_read_def)

end
